theory Spec2Isabelle
  imports Complex_Main "HOL-Library.AList" "HOL-Library.Multiset"
begin

section \<open>The Retry Executor: \<open>retryRequest\<close> of backend/server.js\<close>

text \<open>
  \<open>retryRequest(fn, retries, delay)\<close> runs \<open>fn\<close> in a \<open>for\<close> loop of
  \<open>attempts = retries + 1\<close> iterations. The wrapped operation is asynchronous and
  fallible: it is a function from the state of the world it acts on to a result
  (\<open>Inl\<close> the rejection, \<open>Inr\<close> the resolved value) and the new state of the world.

  The loop state holds the variables of the source (\<open>lastError\<close>, \<open>delay\<close>) and the
  world, and three observations of what the loop did: the number of invocations of \<open>fn\<close>,
  the list of the delays slept, and the number of \<open>Math.random()\<close> draws taken.
  \<open>lastError\<close> starts out \<open>undefined\<close> (\<open>None\<close>); the value thrown after the loop is
  whatever it holds then. The \<open>k\<close>-th draw of \<open>Math.random()\<close> is \<open>rnd k\<close>; the delay
  arithmetic \<open>Math.floor(delay * 1.5 + Math.random() * 1000)\<close> is taken over the reals.
  The call sites pass literal non-negative integers for \<open>retries\<close> and \<open>delay\<close>, which
  are natural numbers here.
\<close>

record ('e, 'w) retry_state =
  lastError :: "'e option"
  delay :: nat
  invocations :: nat
  slept :: "nat list"
  draws :: nat
  world :: 'w

text \<open>
  \<open>retry_loop rnd fn retries left attempt s\<close>: the loop with \<open>left = attempts - attempt\<close>
  iterations to go. With none left the loop is over and \<open>lastError\<close> is thrown.
\<close>

fun retry_loop ::
  "(nat \<Rightarrow> real) \<Rightarrow> ('w \<Rightarrow> ('e + 'a) \<times> 'w) \<Rightarrow> nat \<Rightarrow> nat \<Rightarrow> nat \<Rightarrow> ('e, 'w) retry_state
    \<Rightarrow> ('e option + 'a) \<times> ('e, 'w) retry_state" where
  "retry_loop rnd fn retries 0 attempt s = (Inl (lastError s), s)"
| "retry_loop rnd fn retries (Suc left) attempt s =
     (case fn (world s) of
        (Inr v, w) \<Rightarrow> (Inr v, s\<lparr>invocations := Suc (invocations s), world := w\<rparr>)
      | (Inl e, w) \<Rightarrow>
          (let s1 = s\<lparr>lastError := Some e, invocations := Suc (invocations s), world := w\<rparr>;
               s2 = (if attempt < retries
                     then s1\<lparr>slept := slept s1 @ [delay s1],
                              delay := nat \<lfloor>real (delay s1) * 1.5 + rnd (draws s1) * 1000\<rfloor>,
                              draws := Suc (draws s1)\<rparr>
                     else s1)
           in retry_loop rnd fn retries left (Suc attempt) s2))"

definition retryRequest ::
  "(nat \<Rightarrow> real) \<Rightarrow> ('w \<Rightarrow> ('e + 'a) \<times> 'w) \<Rightarrow> nat \<Rightarrow> nat \<Rightarrow> 'w
    \<Rightarrow> ('e option + 'a) \<times> ('e, 'w) retry_state" where
  "retryRequest rnd fn retries delay0 w =
     retry_loop rnd fn retries (retries + 1) 0
       \<lparr>lastError = None, delay = delay0, invocations = 0, slept = [], draws = 0, world = w\<rparr>"

text \<open>
  What the \<open>n\<close>-th invocation of the operation yields (counting from 0) when it is invoked
  again and again from the world \<open>w\<close>.
\<close>

fun world_after :: "('w \<Rightarrow> ('e + 'a) \<times> 'w) \<Rightarrow> nat \<Rightarrow> 'w \<Rightarrow> 'w" where
  "world_after fn 0 w = w"
| "world_after fn (Suc n) w = world_after fn n (snd (fn w))"

definition nth_result :: "('w \<Rightarrow> ('e + 'a) \<times> 'w) \<Rightarrow> nat \<Rightarrow> 'w \<Rightarrow> 'e + 'a" where
  "nth_result fn n w = fst (fn (world_after fn n w))"

text \<open>Two operations on a counter: one fails twice and then succeeds, one always fails.\<close>

definition fails_twice :: "nat \<Rightarrow> (string + string) \<times> nat" where
  "fails_twice n = (if n < 2 then Inl ''ECONNRESET'' else Inr ''ok'', Suc n)"

definition always_fails :: "nat \<Rightarrow> (string + string) \<times> nat" where
  "always_fails n = (Inl ''ECONNREFUSED'', Suc n)"

text \<open>A source of \<open>Math.random()\<close> draws that always yields one half.\<close>

definition half_random :: "nat \<Rightarrow> real" where
  "half_random k = 1 / 2"

section \<open>JSON values\<close>

text \<open>
  The payload of the AI service and the JSONB columns are JSON values. An object is the
  list of its members in insertion order; reading a member that is absent yields
  \<open>undefined\<close>, which is \<open>None\<close>. No handler computes with a JSON number, so numbers are
  integers here.
\<close>

datatype json =
  JNull
| JBool bool
| JNum int
| JStr string
| JArr "json list"
| JObj "(string \<times> json) list"

text \<open>JavaScript truthiness, as \<open>!x\<close> and \<open>x || y\<close> test it.\<close>

fun truthy :: "json \<Rightarrow> bool" where
  "truthy JNull = False"
| "truthy (JBool b) = b"
| "truthy (JNum n) = (n \<noteq> 0)"
| "truthy (JStr s) = (s \<noteq> [])"
| "truthy (JArr xs) = True"
| "truthy (JObj kvs) = True"

definition truthy_opt :: "json option \<Rightarrow> bool" where
  "truthy_opt x = (case x of None \<Rightarrow> False | Some v \<Rightarrow> truthy v)"

fun isArray :: "json option \<Rightarrow> bool" where
  "isArray (Some (JArr xs)) = True"
| "isArray x = False"

fun isString :: "json \<Rightarrow> bool" where
  "isString (JStr s) = True"
| "isString x = False"

fun elements :: "json option \<Rightarrow> json list" where
  "elements (Some (JArr xs)) = xs"
| "elements x = []"

definition get_field :: "string \<Rightarrow> (string \<times> json) list \<Rightarrow> json option" where
  "get_field f kvs = map_of kvs f"

text \<open>
  \<open>o.f = v\<close>, and \<open>{...o, f: v}\<close>: an existing member keeps its place and takes the new
  value, a new member goes to the end.
\<close>

definition set_field :: "string \<Rightarrow> json \<Rightarrow> (string \<times> json) list \<Rightarrow> (string \<times> json) list" where
  "set_field f v kvs = AList.update f v kvs"

text \<open>\<open>x || []\<close>\<close>

definition or_empty :: "json option \<Rightarrow> json" where
  "or_empty x = (if truthy_opt x then the x else JArr [])"

text \<open>
  The members of a response body as the query handler reads them. An array is an object
  without any of the members the handler names. Reading a member of \<open>null\<close> throws a
  TypeError; a string, number or boolean body has no members and ignores assignments, so
  that \<open>data.related_queries.length\<close> throws a TypeError: both are \<open>None\<close>.
\<close>

fun members :: "json \<Rightarrow> (string \<times> json) list option" where
  "members (JObj kvs) = Some kvs"
| "members (JArr xs) = Some []"
| "members x = None"

text \<open>Truthiness of a request parameter that is a string or absent.\<close>

definition given :: "string option \<Rightarrow> bool" where
  "given x = (case x of None \<Rightarrow> False | Some s \<Rightarrow> s \<noteq> [])"

section \<open>The database of backend/dbInit.js\<close>

text \<open>
  The tables the handlers use, with the constraints \<open>initializeDatabase\<close> declares.
  \<open>chat_sessions\<close> has the primary key \<open>chat_id\<close> and \<open>chat_memory\<close> a unique
  \<open>chat_id\<close>, so both are maps from the chat id to the rest of the row; \<open>chat_history\<close>
  and \<open>products\<close> are lists of rows in insertion order, which is the order of
  \<open>created_at\<close>. \<open>user_ids\<close> is the set of the ids in \<open>users\<close>. Columns that no
  handler writes (\<open>similar_images\<close>, \<open>product_colors\<close>, the timestamps, the serial id of
  a history row) are left out. A user id is a natural number; the value a JSONB or TEXT
  column receives is kept as the JSON value bound to the parameter.

  The statements of this section fail only by violating a declared constraint or the
  range of a column type; the deletion of a chat takes in addition the statement of its
  transaction that the connection or the server fails.
\<close>

record session_row =
  s_user_id :: nat
  s_name :: json
  s_favorite :: "bool option"

record history_row =
  h_chat_id :: string
  h_user_id :: nat
  h_query :: string
  h_answer :: json
  h_pdf_references :: json
  h_online_images :: json
  h_online_videos :: json
  h_online_links :: json
  h_relevant_queries :: json

record product_row =
  p_id :: nat
  p_title :: string
  p_user_id :: "nat option"
  p_info :: string
  p_color :: "string option"

record database =
  user_ids :: "nat set"
  chat_sessions :: "string \<rightharpoonup> session_row"
  chat_history :: "history_row list"
  chat_memory :: "string \<rightharpoonup> json list"
  products :: "product_row list"
  products_id_seq :: nat

datatype db_error =
  NotNullViolation string
| ForeignKeyViolation string
| NumericValueOutOfRange
| StringDataRightTruncation string

text \<open>
  \<open>user_id\<close> is an \<open>INTEGER\<close> column. The handlers bind the user id of the request as it
  came; a statement that compares the column with a value above 2147483647 throws.
\<close>

definition int4 :: "nat \<Rightarrow> bool" where
  "int4 u = (u \<le> 2147483647)"

text \<open>\<open>SELECT chat_id FROM chat_sessions WHERE chat_id = $1 AND user_id = $2\<close>\<close>

definition select_owned_session :: "string \<Rightarrow> nat \<Rightarrow> database \<Rightarrow> db_error + string list" where
  "select_owned_session c u db =
     (if \<not> int4 u then Inl NumericValueOutOfRange
      else case chat_sessions db c of
        None \<Rightarrow> Inr []
      | Some r \<Rightarrow> if s_user_id r = u then Inr [c] else Inr [])"

text \<open>\<open>SELECT * FROM chat_history WHERE chat_id = $1 ORDER BY created_at ASC\<close>\<close>

definition select_history :: "string \<Rightarrow> database \<Rightarrow> history_row list" where
  "select_history c db = filter (\<lambda>h. h_chat_id h = c) (chat_history db)"

text \<open>\<open>SELECT memory FROM chat_memory WHERE chat_id = $1\<close>\<close>

definition select_memory :: "string \<Rightarrow> database \<Rightarrow> json list list" where
  "select_memory c db = (case chat_memory db c of None \<Rightarrow> [] | Some m \<Rightarrow> [m])"

text \<open>\<open>DELETE FROM chat_memory WHERE chat_id = $1\<close>\<close>

definition delete_memory :: "string \<Rightarrow> database \<Rightarrow> database" where
  "delete_memory c db = db\<lparr>chat_memory := (chat_memory db)(c := None)\<rparr>"

text \<open>\<open>DELETE FROM chat_history WHERE chat_id = $1\<close>\<close>

definition delete_history :: "string \<Rightarrow> database \<Rightarrow> database" where
  "delete_history c db = db\<lparr>chat_history := filter (\<lambda>h. h_chat_id h \<noteq> c) (chat_history db)\<rparr>"

text \<open>
  \<open>DELETE FROM chat_sessions WHERE chat_id = $1 AND user_id = $2\<close>, with its row count.
  A history or memory row that still references the session makes the statement fail.
\<close>

definition delete_session :: "string \<Rightarrow> nat \<Rightarrow> database \<Rightarrow> db_error + nat \<times> database" where
  "delete_session c u db =
     (if \<not> int4 u then Inl NumericValueOutOfRange
      else if select_owned_session c u db = Inr [] then Inr (0, db)
      else if select_history c db \<noteq> [] then Inl (ForeignKeyViolation ''chat_history_chat_id_fkey'')
      else if select_memory c db \<noteq> [] then Inl (ForeignKeyViolation ''chat_memory_chat_id_fkey'')
      else Inr (1, db\<lparr>chat_sessions := (chat_sessions db)(c := None)\<rparr>))"


text \<open>
  \<open>INSERT INTO chat_sessions (chat_id, name, user_id) VALUES ($1, $2, $3)
  ON CONFLICT (chat_id) DO NOTHING\<close>. \<open>favorite\<close> takes its default \<open>FALSE\<close>. On a
  conflict no row is inserted and no constraint is checked.
\<close>

definition insert_session :: "string \<Rightarrow> json \<Rightarrow> nat \<Rightarrow> database \<Rightarrow> db_error + database" where
  "insert_session c name u db =
     (case chat_sessions db c of
        Some r \<Rightarrow> Inr db
      | None \<Rightarrow>
          if u \<in> user_ids db
          then Inr (db\<lparr>chat_sessions :=
                  (chat_sessions db)(c \<mapsto> \<lparr>s_user_id = u, s_name = name, s_favorite = Some False\<rparr>)\<rparr>)
          else Inl (ForeignKeyViolation ''chat_sessions_user_id_fkey''))"

text \<open>
  \<open>INSERT INTO chat_history (chat_id, query, answer, pdf_references, online_images,
  online_videos, online_links, relevant_queries, user_id) VALUES (...)\<close>. \<open>query\<close> and
  \<open>answer\<close> are \<open>NOT NULL\<close>; the driver binds \<open>undefined\<close> and \<open>null\<close> as NULL.
\<close>

definition insert_history ::
  "string \<Rightarrow> string option \<Rightarrow> json option \<Rightarrow> json \<Rightarrow> json \<Rightarrow> json \<Rightarrow> json \<Rightarrow> json \<Rightarrow> nat
    \<Rightarrow> database \<Rightarrow> db_error + database" where
  "insert_history c q a refs images videos links related u db =
     (case q of
        None \<Rightarrow> Inl (NotNullViolation ''query'')
      | Some qs \<Rightarrow>
          (case a of
             None \<Rightarrow> Inl (NotNullViolation ''answer'')
           | Some av \<Rightarrow>
               if av = JNull then Inl (NotNullViolation ''answer'')
               else if u \<notin> user_ids db then Inl (ForeignKeyViolation ''chat_history_user_id_fkey'')
               else if chat_sessions db c = None
                 then Inl (ForeignKeyViolation ''chat_history_chat_id_fkey'')
               else Inr (db\<lparr>chat_history := chat_history db @
                      [\<lparr>h_chat_id = c, h_user_id = u, h_query = qs, h_answer = av,
                        h_pdf_references = refs, h_online_images = images,
                        h_online_videos = videos, h_online_links = links,
                        h_relevant_queries = related\<rparr>]\<rparr>)))"

text \<open>
  \<open>INSERT INTO chat_memory (chat_id, memory) VALUES ($1, $2)
  ON CONFLICT (chat_id) DO UPDATE SET memory = $2\<close>
\<close>

definition upsert_memory :: "string \<Rightarrow> json list \<Rightarrow> database \<Rightarrow> db_error + database" where
  "upsert_memory c m db =
     (case chat_memory db c of
        Some old \<Rightarrow> Inr (db\<lparr>chat_memory := (chat_memory db)(c \<mapsto> m)\<rparr>)
      | None \<Rightarrow>
          if chat_sessions db c = None then Inl (ForeignKeyViolation ''chat_memory_chat_id_fkey'')
          else Inr (db\<lparr>chat_memory := (chat_memory db)(c \<mapsto> m)\<rparr>))"



section \<open>The handlers of backend/server.js\<close>

text \<open>
  A handler answers with \<open>res.status(n).json({message: ...})\<close>, which is \<open>Failure n\<close> with
  the message, or with a 200 and a body. A request parameter that the handler tests with
  \<open>!x\<close> is an option: \<open>None\<close> stands for every falsy value of a user id, and a chat id
  is falsy when it is absent or the empty string. A handler runs from its first statement
  to its answer without another request in between.
\<close>

datatype 'a reply = Failure nat string | Success 'a

text \<open>
  \<open>app.get("/api/chat-history/:chatId")\<close>. The chat id is a segment of the path. The
  route matches only a segment that is not empty; a request with an empty one goes on to
  the last \<open>app.use("/api", ...)\<close>, which answers 404 \<open>API route not found\<close>. A statement
  that throws reaches the \<open>catch\<close> of the handler, which answers 500.
\<close>

definition get_chat_history ::
  "string \<Rightarrow> nat option \<Rightarrow> database \<Rightarrow> history_row list reply" where
  "get_chat_history chatId userId db =
     (if chatId = [] then Failure 404 ''API route not found''
      else if \<not> given (Some chatId) then Failure 400 ''Chat ID is required''
      else case userId of
        None \<Rightarrow> Failure 400 ''User ID is required''
      | Some u \<Rightarrow>
          (case select_owned_session chatId u db of
             Inl e \<Rightarrow> Failure 500 ''Server error''
           | Inr rows \<Rightarrow>
               if rows = [] then Failure 403 ''Access denied''
               else Success (select_history chatId db)))"

text \<open>
  \<open>app.delete("/api/chat")\<close>. \<open>BEGIN\<close> keeps the database as it is in \<open>snapshot\<close>; the
  statements after it work on their own state, which \<open>COMMIT\<close> makes the database and
  \<open>ROLLBACK\<close> drops for the snapshot. A statement that throws reaches the inner \<open>catch\<close>,
  which rolls back and rethrows to the outer one, which answers 500. A statement throws
  when it violates a constraint, and also when the connection or the server fails it:
  \<open>throws k\<close> says that the \<open>k\<close>-th \<open>db.query\<close> inside the inner \<open>try\<close> fails so, counting
  the ownership \<open>SELECT\<close> as 0, the three \<open>DELETE\<close>s as 1, 2 and 3 and \<open>COMMIT\<close> as 4.
  \<open>BEGIN\<close> and \<open>ROLLBACK\<close> are taken to succeed.
\<close>

definition ROLLBACK :: "database \<Rightarrow> database \<Rightarrow> database" where
  "ROLLBACK snapshot working = snapshot"

definition COMMIT :: "database \<Rightarrow> database \<Rightarrow> database" where
  "COMMIT snapshot working = working"

definition delete_chat ::
  "(nat \<Rightarrow> bool) \<Rightarrow> string option \<Rightarrow> nat option \<Rightarrow> database \<Rightarrow> unit reply \<times> database" where
  "delete_chat throws chatId userId db =
     (if \<not> given chatId then (Failure 400 ''Chat ID is required'', db)
      else case userId of
        None \<Rightarrow> (Failure 400 ''User ID is required'', db)
      | Some u \<Rightarrow>
          (let c = the chatId; snapshot = db in
           if throws 0 then (Failure 500 ''Server error'', ROLLBACK snapshot db)
           else case select_owned_session c u db of
             Inl e \<Rightarrow> (Failure 500 ''Server error'', ROLLBACK snapshot db)
           | Inr chatCheck \<Rightarrow>
               if chatCheck = [] then (Failure 403 ''Access denied'', ROLLBACK snapshot db)
               else if throws 1 then (Failure 500 ''Server error'', ROLLBACK snapshot db)
               else
                 (let db1 = delete_memory c db in
                  if throws 2 then (Failure 500 ''Server error'', ROLLBACK snapshot db1)
                  else
                    (let db2 = delete_history c db1 in
                     if throws 3 then (Failure 500 ''Server error'', ROLLBACK snapshot db2)
                     else case delete_session c u db2 of
                       Inl e \<Rightarrow> (Failure 500 ''Server error'', ROLLBACK snapshot db2)
                     | Inr (rowCount, db3) \<Rightarrow>
                         if rowCount = 0 then (Failure 404 ''Chat not found'', ROLLBACK snapshot db3)
                         else if throws 4 then (Failure 500 ''Server error'', ROLLBACK snapshot db3)
                         else (Success (), COMMIT snapshot db3)))))"

text \<open>
  The database without the session \<open>c\<close>, its history rows and its memory; a transaction
  in which no statement fails, and one in which the \<open>n\<close>-th statement does.
\<close>

definition deleted :: "string \<Rightarrow> database \<Rightarrow> database" where
  "deleted c db =
     (delete_history c (delete_memory c db))\<lparr>chat_sessions := (chat_sessions db)(c := None)\<rparr>"

definition no_failure :: "nat \<Rightarrow> bool" where
  "no_failure k = False"

definition fails_at :: "nat \<Rightarrow> nat \<Rightarrow> bool" where
  "fails_at n k = (k = n)"


text \<open>
  What a request finds outside the process: the value of \<open>crypto.randomUUID()\<close>, the
  value of \<open>new Date().toISOString()\<close>, the permutation that
  \<open>sort(() => 0.5 - Math.random())\<close> applies, and the draws of \<open>Math.random()\<close> in
  \<open>retryRequest\<close>.
\<close>

record env =
  randomUUID :: string
  toISOString :: string
  sort_random :: "string list \<Rightarrow> string list"
  math_random :: "nat \<Rightarrow> real"




text \<open>
  \<open>generateAdditionalQueries(query, count)\<close>, with \<open>cnt\<close> for \<open>count\<close>. A template literal prints an \<open>undefined\<close>
  query as the text \<open>undefined\<close>.
\<close>

definition template_text :: "string option \<Rightarrow> string" where
  "template_text q = (case q of None \<Rightarrow> ''undefined'' | Some s \<Rightarrow> s)"

definition defaultQueries :: "string option \<Rightarrow> string list" where
  "defaultQueries q =
     [''What are the best practices related to '' @ template_text q @ ''?'',
      ''How does '' @ template_text q @ '' impact compliance requirements?'',
      ''What are common challenges with '' @ template_text q @ ''?'',
      ''What standards govern '' @ template_text q @ ''?'',
      ''How to implement '' @ template_text q @ '' effectively?'',
      ''What are the latest developments in '' @ template_text q @ ''?'',
      ''How to measure success in '' @ template_text q @ ''?'',
      ''What are the risks associated with '' @ template_text q @ ''?'']"

definition suggestion :: "string \<Rightarrow> json" where
  "suggestion queryText = JObj [(''query'', JStr queryText), (''context'', JStr ''Generated suggestion'')]"

definition generateAdditionalQueries :: "env \<Rightarrow> string option \<Rightarrow> nat \<Rightarrow> json list" where
  "generateAdditionalQueries en q cnt =
     map suggestion (take cnt (sort_random en (defaultQueries q)))"

text \<open>
  The normalisation of the response in \<open>app.post("/api/query")\<close>, statement by statement:
  the coercion of \<open>related_queries\<close> to an array, the padding to five, the wrapping of the
  strings, and the default of \<open>pdf_references\<close>.
\<close>

definition coerce_related :: "(string \<times> json) list \<Rightarrow> (string \<times> json) list" where
  "coerce_related data =
     (if \<not> truthy_opt (get_field ''related_queries'' data) \<or> \<not> isArray (get_field ''related_queries'' data)
      then set_field ''related_queries'' (JArr []) data else data)"

definition pad_related :: "env \<Rightarrow> string option \<Rightarrow> (string \<times> json) list \<Rightarrow> (string \<times> json) list" where
  "pad_related en q data =
     (let related = elements (get_field ''related_queries'' data) in
      if length related < 5
      then set_field ''related_queries''
             (JArr (related @ generateAdditionalQueries en q (5 - length related))) data
      else data)"

definition normalize_item :: "json \<Rightarrow> json" where
  "normalize_item item =
     (if isString item
      then (case item of JStr s \<Rightarrow> JObj [(''query'', JStr s), (''context'', JStr ''Generated suggestion'')]
            | other \<Rightarrow> other)
      else item)"

definition normalize_related :: "(string \<times> json) list \<Rightarrow> (string \<times> json) list" where
  "normalize_related data =
     set_field ''related_queries''
       (JArr (map normalize_item (elements (get_field ''related_queries'' data)))) data"

definition default_pdf_references :: "(string \<times> json) list \<Rightarrow> (string \<times> json) list" where
  "default_pdf_references data =
     (if \<not> truthy_opt (get_field ''pdf_references'' data)
      then set_field ''pdf_references'' (JArr []) data else data)"

definition normalize_response :: "env \<Rightarrow> string option \<Rightarrow> (string \<times> json) list \<Rightarrow> (string \<times> json) list" where
  "normalize_response en q data =
     default_pdf_references (normalize_related (pad_related en q (coerce_related data)))"

text \<open>
  What the padding appends to the coerced list \<open>related\<close>, and the shape
  \<open>{query, context}\<close> of a suggestion: an object with a member \<open>query\<close> and a member
  \<open>context\<close>.
\<close>

definition padding :: "env \<Rightarrow> string option \<Rightarrow> json list \<Rightarrow> json list" where
  "padding en q related =
     (if length related < 5 then generateAdditionalQueries en q (5 - length related) else [])"

fun is_suggestion :: "json \<Rightarrow> bool" where
  "is_suggestion (JObj kvs) = (get_field ''query'' kvs \<noteq> None \<and> get_field ''context'' kvs \<noteq> None)"
| "is_suggestion x = False"

text \<open>
  The body of the request, the payload sent to the AI service, and a message of the chat
  memory. \<open>JSON.stringify\<close> leaves out a member that is \<open>undefined\<close>.
\<close>

record query_body =
  query :: "string option"
  org_query :: "string option"
  chat_id :: "string option"
  userId :: "nat option"

record ai_payload =
  ai_query :: "string option"
  ai_org_query :: "string option"
  ai_chat_id :: string
  ai_userId :: nat
  ai_memory :: "json list"

definition message :: "string \<Rightarrow> json option \<Rightarrow> json" where
  "message role content =
     JObj ((''role'', JStr role) # (case content of None \<Rightarrow> [] | Some v \<Rightarrow> [(''content'', v)]))"

text \<open>\<open>updatedMemory.slice(-20)\<close>\<close>

definition slice_last :: "nat \<Rightarrow> 'a list \<Rightarrow> 'a list" where
  "slice_last n xs = drop (length xs - n) xs"

text \<open>
  \<open>app.post("/api/query")\<close>, in the order of its statements. \<open>finalChatId\<close> and
  \<open>chatMemory\<close> are the two values it computes before it calls the AI service: the chat
  id of the client, or a fresh one, and the memory stored under the chat id of the client,
  or the empty list.
\<close>

definition finalChatId :: "env \<Rightarrow> query_body \<Rightarrow> string" where
  "finalChatId en body = (if given (chat_id body) then the (chat_id body) else randomUUID en)"

definition chatMemory :: "query_body \<Rightarrow> database \<Rightarrow> json list" where
  "chatMemory body db =
     (if given (chat_id body)
      then (case select_memory (the (chat_id body)) db of [] \<Rightarrow> [] | m # rows \<Rightarrow> m)
      else [])"

text \<open>
  The statements after the response has arrived, from \<open>const data = aiResponse.data\<close> to
  \<open>res.json\<close>: the normalisation, the insert of the session, the insert of the history
  row, and the new memory. Every exception reaches the \<open>catch\<close> at the end of the handler,
  which answers 500 and undoes nothing: what was stored before the exception stays.
\<close>

definition store_exchange ::
  "env \<Rightarrow> query_body \<Rightarrow> nat \<Rightarrow> json \<Rightarrow> database \<Rightarrow> (string \<times> json) list reply \<times> database" where
  "store_exchange en body u response db =
     (case members response of
        None \<Rightarrow> (Failure 500 ''Failed to process query'', db)
      | Some data0 \<Rightarrow>
          (let data = normalize_response en (query body) data0;
               name = (if truthy_opt (get_field ''chat_name'' data)
                       then the (get_field ''chat_name'' data)
                       else JStr (''Chat '' @ toISOString en))
           in case insert_session (finalChatId en body) name u db of
                Inl e1 \<Rightarrow> (Failure 500 ''Failed to process query'', db)
              | Inr db1 \<Rightarrow>
                  (case insert_history (finalChatId en body) (query body) (get_field ''answer'' data)
                          (or_empty (get_field ''pdf_references'' data))
                          (or_empty (get_field ''online_images'' data))
                          (or_empty (get_field ''online_videos'' data))
                          (or_empty (get_field ''online_links'' data))
                          (or_empty (get_field ''related_queries'' data)) u db1 of
                     Inl e2 \<Rightarrow> (Failure 500 ''Failed to process query'', db1)
                   | Inr db2 \<Rightarrow>
                       (let updatedMemory = chatMemory body db @
                              [message ''user'' (map_option JStr (query body)),
                               message ''assistant'' (get_field ''answer'' data)];
                            limitedMemory = slice_last 20 updatedMemory
                        in case upsert_memory (finalChatId en body) limitedMemory db2 of
                             Inl e3 \<Rightarrow> (Failure 500 ''Failed to process query'', db2)
                           | Inr db3 \<Rightarrow>
                               (Success (set_field ''chatId'' (JStr (finalChatId en body)) data), db3)))))"

text \<open>
  What the handler leaves behind: its answer, the database, the world of the AI service,
  and the number of requests it made to the AI service. \<open>ai\<close> is the request
  \<open>axios.post(.../api/query, payload)\<close>; it resolves to the body of the response.
\<close>

record 'w query_result =
  answered :: "(string \<times> json) list reply"
  stored :: database
  upstream :: 'w
  upstream_calls :: nat

definition payload :: "env \<Rightarrow> query_body \<Rightarrow> nat \<Rightarrow> database \<Rightarrow> ai_payload" where
  "payload en body u db =
     \<lparr>ai_query = query body, ai_org_query = org_query body, ai_chat_id = finalChatId en body,
      ai_userId = u, ai_memory = chatMemory body db\<rparr>"

definition post_query ::
  "env \<Rightarrow> (ai_payload \<Rightarrow> 'w \<Rightarrow> ('e + json) \<times> 'w) \<Rightarrow> query_body \<Rightarrow> database \<Rightarrow> 'w
    \<Rightarrow> 'w query_result" where
  "post_query en ai body db w =
     (case userId body of
        None \<Rightarrow>
          \<lparr>answered = Failure 400 ''User ID is required'', stored = db, upstream = w,
           upstream_calls = 0\<rparr>
      | Some u \<Rightarrow>
          (let r = retryRequest (math_random en) (ai (payload en body u db)) 5 5000 w in
           case fst r of
             Inl e \<Rightarrow>
               \<lparr>answered = Failure 500 ''Failed to process query'', stored = db,
                upstream = world (snd r), upstream_calls = invocations (snd r)\<rparr>
           | Inr response \<Rightarrow>
               (let (a, db1) = store_exchange en body u response db in
                \<lparr>answered = a, stored = db1, upstream = world (snd r),
                 upstream_calls = invocations (snd r)\<rparr>)))"

text \<open>
  A run of query requests one after the other, each with what it finds outside the
  process, on one database and one AI service.
\<close>

fun post_queries ::
  "(ai_payload \<Rightarrow> 'w \<Rightarrow> ('e + json) \<times> 'w) \<Rightarrow> (env \<times> query_body) list \<Rightarrow> database \<Rightarrow> 'w
    \<Rightarrow> (string \<times> json) list reply list \<times> database \<times> 'w" where
  "post_queries ai [] db w = ([], db, w)"
| "post_queries ai ((en, body) # rest) db w =
     (let r = post_query en ai body db w;
          (replies, db1, w1) = post_queries ai rest (stored r) (upstream r)
      in (answered r # replies, db1, w1))"

text \<open>
  The two messages of a completed exchange as the claim about the memory describes them,
  a user message with the query of the request and an assistant message with the answer of
  the reply, and whether a request was completed.
\<close>

fun exchange_messages :: "query_body \<Rightarrow> (string \<times> json) list reply \<Rightarrow> json list" where
  "exchange_messages body (Success out) =
     (case (query body, get_field ''answer'' out) of
        (Some q, Some a) \<Rightarrow>
          [JObj [(''role'', JStr ''user''), (''content'', JStr q)],
           JObj [(''role'', JStr ''assistant''), (''content'', a)]]
      | other \<Rightarrow> [])"
| "exchange_messages body (Failure n msg) = []"

fun succeeded :: "'a reply \<Rightarrow> bool" where
  "succeeded (Success out) = True"
| "succeeded (Failure n msg) = False"

section \<open>Sample data\<close>

text \<open>
  A database with two users. User 1 owns the session \<open>c1\<close>, which has one history row
  and a memory of two messages, and two products, a red one and a blue one.
\<close>

definition sample_db :: database where
  "sample_db =
     \<lparr>user_ids = {1, 2},
      chat_sessions = [''c1'' \<mapsto> \<lparr>s_user_id = 1, s_name = JStr ''First chat'', s_favorite = Some False\<rparr>],
      chat_history =
        [\<lparr>h_chat_id = ''c1'', h_user_id = 1, h_query = ''q0'', h_answer = JStr ''a0'',
          h_pdf_references = JArr [], h_online_images = JArr [], h_online_videos = JArr [],
          h_online_links = JArr [], h_relevant_queries = JArr []\<rparr>],
      chat_memory = [''c1'' \<mapsto> [message ''user'' (Some (JStr ''q0'')),
                                message ''assistant'' (Some (JStr ''a0''))]],
      products =
        [\<lparr>p_id = 1, p_title = ''Valve'', p_user_id = Some 1, p_info = ''A valve'', p_color = Some ''red''\<rparr>,
         \<lparr>p_id = 2, p_title = ''Pump'', p_user_id = Some 1, p_info = ''A pump'', p_color = Some ''blue''\<rparr>],
      products_id_seq = 2\<rparr>"

definition sample_env :: env where
  "sample_env =
     \<lparr>randomUUID = ''0b0e7a52-uuid'', toISOString = ''2025-01-01T00:00:00.000Z'',
      sort_random = rev, math_random = half_random\<rparr>"

text \<open>
  Three AI services on a counter of the requests received: one that answers every query
  with two related queries, a string and an object; one whose related query is an object
  of another shape; and one that is down.
\<close>

definition ai_answers :: "ai_payload \<Rightarrow> nat \<Rightarrow> (string + json) \<times> nat" where
  "ai_answers p n =
     (Inr (JObj [(''answer'', JStr ''It depends.''),
                 (''related_queries'',
                    JArr [JStr ''What is ISO 9001?'',
                          JObj [(''query'', JStr ''Who audits?''), (''context'', JStr ''From the document'')]])]),
      Suc n)"

definition ai_other_shape :: "ai_payload \<Rightarrow> nat \<Rightarrow> (string + json) \<times> nat" where
  "ai_other_shape p n =
     (Inr (JObj [(''answer'', JStr ''It depends.''),
                 (''related_queries'', JArr [JObj [(''text'', JStr ''What is ISO 9001?'')]])]),
      Suc n)"

definition ai_down :: "ai_payload \<Rightarrow> nat \<Rightarrow> (string + json) \<times> nat" where
  "ai_down p n = (Inl ''ECONNREFUSED'', Suc n)"


text \<open>Eleven queries of user 1 in the session \<open>c1\<close>.\<close>

definition sample_requests :: "(env \<times> query_body) list" where
  "sample_requests =
     map (\<lambda>q. (sample_env, \<lparr>query = Some q, org_query = None, chat_id = Some ''c1'', userId = Some 1\<rparr>))
       [''q01'', ''q02'', ''q03'', ''q04'', ''q05'', ''q06'', ''q07'', ''q08'', ''q09'', ''q10'', ''q11'']"

section \<open>Properties of the Retry Executor\<close>

lemma nth_result_0: "nth_result fn 0 w = fst (fn w)"
  by (simp add: nth_result_def)

lemma nth_result_Suc: "nth_result fn (Suc n) w = nth_result fn n (snd (fn w))"
  by (simp add: nth_result_def)

lemma retry_loop_invocations_le:
  "invocations (snd (retry_loop rnd fn R left a s)) \<le> invocations s + left"
proof (induction left arbitrary: a s)
  case 0
  show ?case by simp
next
  case (Suc left)
  show ?case
  proof (cases "fn (world s)")
    case (Pair r w)
    show ?thesis
    proof (cases r)
      case (Inl e)
      with Pair Suc.IH show ?thesis
        by (simp add: Let_def le_trans [OF Suc.IH])
    next
      case (Inr v)
      with Pair show ?thesis by simp
    qed
  qed
qed

lemma retry_loop_success:
  "k < left \<Longrightarrow> (\<forall>i<k. isl (nth_result fn i (world s))) \<Longrightarrow> nth_result fn k (world s) = Inr v \<Longrightarrow>
     fst (retry_loop rnd fn R left a s) = Inr v \<and>
     invocations (snd (retry_loop rnd fn R left a s)) = invocations s + k + 1 \<and>
     world (snd (retry_loop rnd fn R left a s)) = world_after fn (Suc k) (world s)"
proof (induction k arbitrary: left a s)
  case 0
  then obtain l where l: "left = Suc l" by (cases left) auto
  from 0 obtain w where "fn (world s) = (Inr v, w)"
    by (cases "fn (world s)") (auto simp: nth_result_0)
  with l show ?case by simp
next
  case (Suc k)
  then obtain l where l: "left = Suc l" and kl: "k < l" by (cases left) auto
  from Suc.prems(2) have "isl (nth_result fn 0 (world s))" by blast
  then obtain e w where fw: "fn (world s) = (Inl e, w)"
    by (cases "fn (world s)") (auto simp: nth_result_0 isl_def)
  have later: "\<forall>i<k. isl (nth_result fn i w)"
  proof (intro allI impI)
    fix i assume "i < k"
    then have "isl (nth_result fn (Suc i) (world s))" using Suc.prems(2) by simp
    then show "isl (nth_result fn i w)" using fw by (simp add: nth_result_Suc)
  qed
  have hit: "nth_result fn k w = Inr v"
    using Suc.prems(3) fw by (simp add: nth_result_Suc)
  show ?case
    using l fw Suc.IH [OF kl, where s = "s\<lparr>lastError := Some e, invocations := Suc (invocations s), world := w\<rparr>", simplified, OF later hit]
      Suc.IH [OF kl, where s = "s\<lparr>lastError := Some e, invocations := Suc (invocations s), world := w,
         slept := slept s @ [delay s], delay := nat \<lfloor>real (delay s) * 1.5 + rnd (draws s) * 1000\<rfloor>, draws := Suc (draws s)\<rparr>", simplified, OF later hit]
    by (simp add: Let_def)
qed

lemma retry_loop_exhaust:
  "(\<forall>i<left. isl (nth_result fn i (world s))) \<Longrightarrow>
     fst (retry_loop rnd fn R left a s) =
       Inl (if left = 0 then lastError s else Some (projl (nth_result fn (left - 1) (world s)))) \<and>
     invocations (snd (retry_loop rnd fn R left a s)) = invocations s + left"
proof (induction left arbitrary: a s)
  case 0
  show ?case by simp
next
  case (Suc left)
  from Suc.prems have "isl (nth_result fn 0 (world s))" by blast
  then obtain e w where fw: "fn (world s) = (Inl e, w)"
    by (cases "fn (world s)") (auto simp: nth_result_0 isl_def)
  have later: "\<forall>i<left. isl (nth_result fn i w)"
  proof (intro allI impI)
    fix i assume "i < left"
    then have "isl (nth_result fn (Suc i) (world s))" using Suc.prems by simp
    then show "isl (nth_result fn i w)" using fw by (simp add: nth_result_Suc)
  qed
  have last: "left \<noteq> 0 \<Longrightarrow> nth_result fn (left - 1) w = nth_result fn left (world s)"
    using fw by (cases left) (simp_all add: nth_result_Suc)
  have first: "left = 0 \<Longrightarrow> nth_result fn left (world s) = Inl e"
    using fw by (simp add: nth_result_0)
  show ?case
    using fw last first
      Suc.IH [where s = "s\<lparr>lastError := Some e, invocations := Suc (invocations s), world := w\<rparr>",
        simplified, OF later]
      Suc.IH [where s = "s\<lparr>lastError := Some e, invocations := Suc (invocations s), world := w,
         slept := slept s @ [delay s],
         delay := nat \<lfloor>real (delay s) * 1.5 + rnd (draws s) * 1000\<rfloor>,
         draws := Suc (draws s)\<rparr>", simplified, OF later]
    by (simp add: Let_def)
qed

text \<open>
  Claim C1. \<open>retryRequest\<close> with retry count \<open>R\<close> invokes the operation at most \<open>R + 1\<close>
  times. If the first \<open>k \<le> R\<close> invocations fail and the next one succeeds, it returns that
  success and has invoked the operation exactly \<open>k + 1\<close> times (nothing is invoked after a
  success). If all \<open>R + 1\<close> invocations fail, it throws the error of the last invocation
  after exactly \<open>R + 1\<close> invocations.
\<close>

theorem retryRequest_attempts:
  "invocations (snd (retryRequest rnd fn R D w)) \<le> R + 1 \<and>
   (k \<le> R \<and> (\<forall>i<k. isl (nth_result fn i w)) \<and> nth_result fn k w = Inr v \<longrightarrow>
      fst (retryRequest rnd fn R D w) = Inr v \<and>
      invocations (snd (retryRequest rnd fn R D w)) = k + 1 \<and>
      world (snd (retryRequest rnd fn R D w)) = world_after fn (k + 1) w) \<and>
   ((\<forall>i\<le>R. isl (nth_result fn i w)) \<longrightarrow>
      fst (retryRequest rnd fn R D w) = Inl (Some (projl (nth_result fn R w))) \<and>
      invocations (snd (retryRequest rnd fn R D w)) = R + 1)"
proof (intro conjI impI)
  show "invocations (snd (retryRequest rnd fn R D w)) \<le> R + 1"
    using retry_loop_invocations_le [of rnd fn R "R + 1" 0
        "\<lparr>lastError = None, delay = D, invocations = 0, slept = [], draws = 0, world = w\<rparr>"]
    by (simp add: retryRequest_def del: retry_loop.simps)
next
  assume h: "k \<le> R \<and> (\<forall>i<k. isl (nth_result fn i w)) \<and> nth_result fn k w = Inr v"
  let ?s = "\<lparr>lastError = None, delay = D, invocations = 0, slept = [], draws = 0, world = w\<rparr>"
  from h have "k < R + 1" "\<forall>i<k. isl (nth_result fn i (world ?s))"
    "nth_result fn k (world ?s) = Inr v" by simp_all
  from retry_loop_success [OF this, of rnd R 0]
  show "fst (retryRequest rnd fn R D w) = Inr v"
    and "invocations (snd (retryRequest rnd fn R D w)) = k + 1"
    and "world (snd (retryRequest rnd fn R D w)) = world_after fn (k + 1) w"
    by (simp_all add: retryRequest_def del: retry_loop.simps)
next
  assume h: "\<forall>i\<le>R. isl (nth_result fn i w)"
  let ?s = "\<lparr>lastError = None, delay = D, invocations = 0, slept = [], draws = 0, world = w\<rparr>"
  from h have "\<forall>i<R + 1. isl (nth_result fn i (world ?s))" by simp
  from retry_loop_exhaust [OF this, of rnd R 0]
  show "fst (retryRequest rnd fn R D w) = Inl (Some (projl (nth_result fn R w)))"
    and "invocations (snd (retryRequest rnd fn R D w)) = R + 1"
    by (simp_all add: retryRequest_def del: retry_loop.simps)
qed

lemma fails_twice_results:
  "nth_result fails_twice 0 0 = Inl ''ECONNRESET''"
  "nth_result fails_twice 1 0 = Inl ''ECONNRESET''"
  "nth_result fails_twice 2 0 = Inr ''ok''"
  by (simp_all add: nth_result_def fails_twice_def eval_nat_numeral)

lemma always_fails_result: "nth_result always_fails i n = Inl ''ECONNREFUSED''"
  by (simp add: nth_result_def always_fails_def)

theorem retryRequest_attempts_witness:
  "fst (retryRequest half_random fails_twice 3 1000 0) = Inr ''ok'' \<and>
   invocations (snd (retryRequest half_random fails_twice 3 1000 0)) = 3 \<and>
   fst (retryRequest half_random always_fails 2 1000 0) = Inl (Some ''ECONNREFUSED'') \<and>
   invocations (snd (retryRequest half_random always_fails 2 1000 0)) = 3"
proof -
  have two: "\<forall>i<2::nat. isl (nth_result fails_twice i 0)"
    by (auto simp: less_Suc_eq eval_nat_numeral fails_twice_results nth_result_0
        nth_result_Suc fails_twice_def)
  have a: "fst (retryRequest half_random fails_twice 3 1000 0) = Inr ''ok'' \<and>
      invocations (snd (retryRequest half_random fails_twice 3 1000 0)) = 3"
    using retryRequest_attempts [of half_random fails_twice 3 1000 0 2 "''ok''"] two
    by (simp add: fails_twice_results)
  have b: "fst (retryRequest half_random always_fails 2 1000 0) = Inl (Some ''ECONNREFUSED'') \<and>
      invocations (snd (retryRequest half_random always_fails 2 1000 0)) = 3"
    using retryRequest_attempts [of half_random always_fails 2 1000 0]
    by (simp add: always_fails_result)
  from a b show ?thesis by simp
qed

section \<open>Properties of the color assignment\<close>








section \<open>Properties of the session operations\<close>



lemma select_owned_session_cases:
  "select_owned_session c u db =
     (if \<not> int4 u then Inl NumericValueOutOfRange
      else if \<exists>r. chat_sessions db c = Some r \<and> s_user_id r = u then Inr [c] else Inr [])"
  by (auto simp: select_owned_session_def split: option.splits)

lemma filter_other_chat:
  "c' \<noteq> c \<Longrightarrow>
     filter (\<lambda>h. h_chat_id h \<noteq> c \<and> h_chat_id h = c') xs =
     filter (\<lambda>h. h_chat_id h = c') xs"
  by (induction xs) auto

lemma delete_session_after_deletes:
  "delete_session c u (delete_history c (delete_memory c db)) =
     (if \<not> int4 u then Inl NumericValueOutOfRange
      else if \<exists>r. chat_sessions db c = Some r \<and> s_user_id r = u then Inr (1, deleted c db)
      else Inr (0, delete_history c (delete_memory c db)))"
  by (auto simp: delete_session_def delete_history_def delete_memory_def select_owned_session_def
      select_history_def select_memory_def deleted_def split: option.splits)

lemma delete_chat_cases:
  "delete_chat throws cid uid db =
     (if \<not> given cid then (Failure 400 ''Chat ID is required'', db)
      else if uid = None then (Failure 400 ''User ID is required'', db)
      else if throws 0 \<or> \<not> int4 (the uid) then (Failure 500 ''Server error'', db)
      else if \<not> (\<exists>r. chat_sessions db (the cid) = Some r \<and> s_user_id r = the uid)
        then (Failure 403 ''Access denied'', db)
      else if throws 1 \<or> throws 2 \<or> throws 3 \<or> throws 4 then (Failure 500 ''Server error'', db)
      else (Success (), deleted (the cid) db))"
  by (auto simp: delete_chat_def Let_def delete_session_after_deletes select_owned_session_cases
      ROLLBACK_def COMMIT_def split: option.splits)


lemma get_chat_history_cases:
  "get_chat_history c uid db =
     (if c = [] then Failure 404 ''API route not found''
      else if uid = None then Failure 400 ''User ID is required''
      else if \<not> int4 (the uid) then Failure 500 ''Server error''
      else if \<not> (\<exists>r. chat_sessions db c = Some r \<and> s_user_id r = the uid)
        then Failure 403 ''Access denied''
      else Success (select_history c db))"
  by (auto simp: get_chat_history_def select_owned_session_cases given_def split: option.splits)




lemma deleted_gone:
  "chat_memory (deleted c db) c = None" "select_history c (deleted c db) = []"
  "chat_sessions (deleted c db) c = None"
  by (simp_all add: deleted_def delete_history_def delete_memory_def select_history_def)

lemma deleted_others:
  "c' \<noteq> c \<Longrightarrow> chat_memory (deleted c db) c' = chat_memory db c'"
  "c' \<noteq> c \<Longrightarrow> select_history c' (deleted c db) = select_history c' db"
  "c' \<noteq> c \<Longrightarrow> chat_sessions (deleted c db) c' = chat_sessions db c'"
  "user_ids (deleted c db) = user_ids db" "products (deleted c db) = products db"
  by (simp_all add: deleted_def delete_history_def delete_memory_def select_history_def
      filter_other_chat)

text \<open>
  Claim C4, as the code has it. \<open>DELETE /api/chat\<close> by the owner of the session, in a
  transaction in which no statement fails, answers 200; afterwards the memory of the
  session, its history rows and the session row are gone, every other session keeps its
  row, its history and its memory, and a history fetch for the chat id is refused with 403
  \<open>Access denied\<close>. When no session with the chat id is owned by the requesting user the
  answer is 403 and the database is as it was. When a statement of the transaction fails,
  also after memory or history have been deleted, the transaction is rolled back: the
  answer is 500 and the database is as it was. All or nothing: whenever the answer is not
  the 200 the database is unchanged, and with the 200 all three are gone. (Chat ids are not
  empty and user ids are in the range of the \<open>INTEGER\<close> column.)
\<close>

theorem delete_chat_all_or_nothing:
  "(c \<noteq> [] \<and> int4 u \<and> chat_sessions db c = Some r \<and> s_user_id r = u \<and>
    \<not> throws 0 \<and> \<not> throws 1 \<and> \<not> throws 2 \<and> \<not> throws 3 \<and> \<not> throws 4 \<longrightarrow>
      (\<exists>db1. delete_chat throws (Some c) (Some u) db = (Success (), db1) \<and>
         chat_memory db1 c = None \<and> select_history c db1 = [] \<and> chat_sessions db1 c = None \<and>
         (\<forall>c'. c' \<noteq> c \<longrightarrow>
            chat_memory db1 c' = chat_memory db c' \<and> select_history c' db1 = select_history c' db \<and>
            chat_sessions db1 c' = chat_sessions db c') \<and>
         user_ids db1 = user_ids db \<and> products db1 = products db \<and>
         (int4 u' \<longrightarrow> get_chat_history c (Some u') db1 = Failure 403 ''Access denied''))) \<and>
   (c \<noteq> [] \<and> int4 u \<and> \<not> (\<exists>r. chat_sessions db c = Some r \<and> s_user_id r = u) \<and> \<not> throws 0 \<longrightarrow>
      delete_chat throws (Some c) (Some u) db = (Failure 403 ''Access denied'', db)) \<and>
   (c \<noteq> [] \<and> int4 u \<and> chat_sessions db c = Some r \<and> s_user_id r = u \<and>
    (throws 0 \<or> throws 1 \<or> throws 2 \<or> throws 3 \<or> throws 4) \<longrightarrow>
      delete_chat throws (Some c) (Some u) db = (Failure 500 ''Server error'', db)) \<and>
   (fst (delete_chat throws cid uid db) \<noteq> Success () \<longrightarrow> snd (delete_chat throws cid uid db) = db) \<and>
   (fst (delete_chat throws cid uid db) = Success () \<longrightarrow>
      chat_memory (snd (delete_chat throws cid uid db)) (the cid) = None \<and>
      select_history (the cid) (snd (delete_chat throws cid uid db)) = [] \<and>
      chat_sessions (snd (delete_chat throws cid uid db)) (the cid) = None)"
proof (intro conjI impI)
  assume h: "c \<noteq> [] \<and> int4 u \<and> chat_sessions db c = Some r \<and> s_user_id r = u \<and>
    \<not> throws 0 \<and> \<not> throws 1 \<and> \<not> throws 2 \<and> \<not> throws 3 \<and> \<not> throws 4"
  then have c: "given (Some c)" by (simp add: given_def)
  have run: "delete_chat throws (Some c) (Some u) db = (Success (), deleted c db)"
    using h c by (simp add: delete_chat_cases)
  have others: "\<forall>c'. c' \<noteq> c \<longrightarrow>
      chat_memory (deleted c db) c' = chat_memory db c' \<and>
      select_history c' (deleted c db) = select_history c' db \<and>
      chat_sessions (deleted c db) c' = chat_sessions db c'"
    by (simp add: deleted_others)
  have fetch: "int4 u' \<longrightarrow> get_chat_history c (Some u') (deleted c db) = Failure 403 ''Access denied''"
    using h by (simp add: get_chat_history_cases deleted_gone)
  from run deleted_gone [of c db] others deleted_others(4,5) [of c db] fetch
  show "\<exists>db1. delete_chat throws (Some c) (Some u) db = (Success (), db1) \<and>
         chat_memory db1 c = None \<and> select_history c db1 = [] \<and> chat_sessions db1 c = None \<and>
         (\<forall>c'. c' \<noteq> c \<longrightarrow>
            chat_memory db1 c' = chat_memory db c' \<and> select_history c' db1 = select_history c' db \<and>
            chat_sessions db1 c' = chat_sessions db c') \<and>
         user_ids db1 = user_ids db \<and> products db1 = products db \<and>
         (int4 u' \<longrightarrow> get_chat_history c (Some u') db1 = Failure 403 ''Access denied'')"
    by - (intro exI [of _ "deleted c db"] conjI; assumption)
next
  assume h: "c \<noteq> [] \<and> int4 u \<and> \<not> (\<exists>r. chat_sessions db c = Some r \<and> s_user_id r = u) \<and> \<not> throws 0"
  then show "delete_chat throws (Some c) (Some u) db = (Failure 403 ''Access denied'', db)"
    by (simp add: delete_chat_cases given_def)
next
  assume h: "c \<noteq> [] \<and> int4 u \<and> chat_sessions db c = Some r \<and> s_user_id r = u \<and>
    (throws 0 \<or> throws 1 \<or> throws 2 \<or> throws 3 \<or> throws 4)"
  then show "delete_chat throws (Some c) (Some u) db = (Failure 500 ''Server error'', db)"
    by (auto simp: delete_chat_cases given_def)
next
  assume "fst (delete_chat throws cid uid db) \<noteq> Success ()"
  then show "snd (delete_chat throws cid uid db) = db"
    by (auto simp: delete_chat_cases split: if_splits)
next
  assume ok: "fst (delete_chat throws cid uid db) = Success ()"
  then have "snd (delete_chat throws cid uid db) = deleted (the cid) db"
    by (auto simp: delete_chat_cases split: if_splits)
  then show "chat_memory (snd (delete_chat throws cid uid db)) (the cid) = None"
    and "select_history (the cid) (snd (delete_chat throws cid uid db)) = []"
    and "chat_sessions (snd (delete_chat throws cid uid db)) (the cid) = None"
    by (simp_all add: deleted_gone)
qed

theorem delete_chat_all_or_nothing_witness:
  "(\<exists>db1. delete_chat no_failure (Some ''c1'') (Some 1) sample_db = (Success (), db1) \<and>
      chat_memory db1 ''c1'' = None \<and> select_history ''c1'' db1 = [] \<and>
      chat_sessions db1 ''c1'' = None) \<and>
   delete_chat no_failure (Some ''c1'') (Some 2) sample_db = (Failure 403 ''Access denied'', sample_db) \<and>
   delete_chat (fails_at 3) (Some ''c1'') (Some 1) sample_db = (Failure 500 ''Server error'', sample_db) \<and>
   chat_memory sample_db ''c1'' \<noteq> None \<and> select_history ''c1'' sample_db \<noteq> []"
proof -
  let ?r = "\<lparr>s_user_id = 1, s_name = JStr ''First chat'', s_favorite = Some False\<rparr>"
  have own: "''c1'' \<noteq> [] \<and> int4 1 \<and> chat_sessions sample_db ''c1'' = Some ?r \<and> s_user_id ?r = 1"
    by (simp add: sample_db_def int4_def)
  have a: "''c1'' \<noteq> [] \<and> int4 1 \<and> chat_sessions sample_db ''c1'' = Some ?r \<and> s_user_id ?r = 1 \<and>
      \<not> no_failure 0 \<and> \<not> no_failure 1 \<and> \<not> no_failure 2 \<and> \<not> no_failure 3 \<and> \<not> no_failure 4"
    using own by (simp add: no_failure_def)
  have b: "''c1'' \<noteq> [] \<and> int4 2 \<and>
      \<not> (\<exists>r. chat_sessions sample_db ''c1'' = Some r \<and> s_user_id r = 2) \<and> \<not> no_failure 0"
    by (simp add: sample_db_def int4_def no_failure_def)
  have f: "''c1'' \<noteq> [] \<and> int4 1 \<and> chat_sessions sample_db ''c1'' = Some ?r \<and> s_user_id ?r = 1 \<and>
      (fails_at 3 0 \<or> fails_at 3 1 \<or> fails_at 3 2 \<or> fails_at 3 3 \<or> fails_at 3 4)"
    using own by (simp add: fails_at_def)
  have owner: "\<exists>db1. delete_chat no_failure (Some ''c1'') (Some 1) sample_db = (Success (), db1) \<and>
      chat_memory db1 ''c1'' = None \<and> select_history ''c1'' db1 = [] \<and>
      chat_sessions db1 ''c1'' = None"
  proof -
    from delete_chat_all_or_nothing [where c = "''c1''" and db = sample_db and r = ?r and u = 1
        and throws = no_failure and u' = 1, THEN conjunct1, THEN mp, OF a]
    obtain db1 where "delete_chat no_failure (Some ''c1'') (Some 1) sample_db = (Success (), db1) \<and>
         chat_memory db1 ''c1'' = None \<and> select_history ''c1'' db1 = [] \<and>
         chat_sessions db1 ''c1'' = None \<and>
         (\<forall>c'. c' \<noteq> ''c1'' \<longrightarrow>
            chat_memory db1 c' = chat_memory sample_db c' \<and>
            select_history c' db1 = select_history c' sample_db \<and>
            chat_sessions db1 c' = chat_sessions sample_db c') \<and>
         user_ids db1 = user_ids sample_db \<and> products db1 = products sample_db \<and>
         (int4 1 \<longrightarrow> get_chat_history ''c1'' (Some 1) db1 = Failure 403 ''Access denied'')" ..
    then show ?thesis by (intro exI [of _ db1]) simp
  qed
  have other: "delete_chat no_failure (Some ''c1'') (Some 2) sample_db =
      (Failure 403 ''Access denied'', sample_db)"
    using delete_chat_all_or_nothing [where c = "''c1''" and db = sample_db and u = 2
        and throws = no_failure, THEN conjunct2, THEN conjunct1, THEN mp, OF b] .
  have failed: "delete_chat (fails_at 3) (Some ''c1'') (Some 1) sample_db =
      (Failure 500 ''Server error'', sample_db)"
    using delete_chat_all_or_nothing [where c = "''c1''" and db = sample_db and r = ?r and u = 1
        and throws = "fails_at 3", THEN conjunct2, THEN conjunct2, THEN conjunct1, THEN mp, OF f] .
  have rows: "chat_memory sample_db ''c1'' \<noteq> None \<and> select_history ''c1'' sample_db \<noteq> []"
    by (simp add: sample_db_def select_history_def)
  from owner other failed rows show ?thesis by (intro conjI) simp_all
qed

text \<open>
  The claim as the specification states it fails at the fetch after the deletion: the
  answer is 403 \<open>Access denied\<close>, neither an empty history nor a 404.
\<close>

theorem fetch_after_delete_counterexample:
  "fst (delete_chat no_failure (Some ''c1'') (Some 1) sample_db) = Success () \<and>
   get_chat_history ''c1'' (Some 1) (snd (delete_chat no_failure (Some ''c1'') (Some 1) sample_db)) =
     Failure 403 ''Access denied'' \<and>
   get_chat_history ''c1'' (Some 1) (snd (delete_chat no_failure (Some ''c1'') (Some 1) sample_db)) \<noteq>
     Success [] \<and>
   get_chat_history ''c1'' (Some 1) (snd (delete_chat no_failure (Some ''c1'') (Some 1) sample_db)) \<noteq>
     Failure 404 ''Chat not found''"
proof -
  have run: "delete_chat no_failure (Some ''c1'') (Some 1) sample_db = (Success (), deleted ''c1'' sample_db)"
    by (simp add: delete_chat_cases given_def int4_def no_failure_def sample_db_def)
  have "get_chat_history ''c1'' (Some 1) (deleted ''c1'' sample_db) = Failure 403 ''Access denied''"
    by (simp add: get_chat_history_cases deleted_gone int4_def)
  with run show ?thesis by simp
qed

section \<open>Properties of the query handler\<close>

lemma retry_loop_invocations_mono:
  "invocations s \<le> invocations (snd (retry_loop rnd fn R left a s))"
proof (induction left arbitrary: a s)
  case 0
  show ?case by simp
next
  case (Suc left)
  show ?case
  proof (cases "fn (world s)")
    case (Pair r w)
    show ?thesis
    proof (cases r)
      case (Inl e)
      have "Suc (invocations s) \<le> invocations (snd (retry_loop rnd fn R (Suc left) a s))"
        using Pair Inl
          Suc.IH [where s = "s\<lparr>lastError := Some e, invocations := Suc (invocations s), world := w\<rparr>"]
          Suc.IH [where s = "s\<lparr>lastError := Some e, invocations := Suc (invocations s), world := w,
            slept := slept s @ [delay s],
            delay := nat \<lfloor>real (delay s) * 1.5 + rnd (draws s) * 1000\<rfloor>,
            draws := Suc (draws s)\<rparr>"]
        by (simp add: Let_def)
      then show ?thesis by simp
    next
      case (Inr v)
      with Pair show ?thesis by simp
    qed
  qed
qed

lemma retryRequest_invokes:
  fixes fn :: "'w \<Rightarrow> ('e + 'a) \<times> 'w"
  shows "1 \<le> invocations (snd (retryRequest rnd fn R D w))"
proof (cases "fn w")
  case (Pair r w1)
  let ?s = "\<lparr>lastError = None :: 'e option, delay = D, invocations = 0, slept = [], draws = 0, world = w\<rparr>"
  show ?thesis
  proof (cases r)
    case (Inl e)
    let ?s1 = "?s\<lparr>lastError := Some e, invocations := Suc (invocations ?s), world := w1\<rparr>"
    let ?s2 = "if 0 < R
        then ?s1\<lparr>slept := slept ?s1 @ [delay ?s1],
                  delay := nat \<lfloor>real (delay ?s1) * 1.5 + rnd (draws ?s1) * 1000\<rfloor>,
                  draws := Suc (draws ?s1)\<rparr>
        else ?s1"
    have "retryRequest rnd fn R D w = retry_loop rnd fn R R (Suc 0) ?s2"
      using Pair Inl by (simp add: retryRequest_def Let_def)
    moreover have "invocations ?s2 = 1" by simp
    ultimately show ?thesis
      using retry_loop_invocations_mono [of ?s2 rnd fn R R "Suc 0"] by simp
  next
    case (Inr v)
    with Pair show ?thesis by (simp add: retryRequest_def)
  qed
qed

lemma retryRequest_first_try:
  assumes "fst (fn w) = Inr v"
  shows "fst (retryRequest rnd fn R D w) = Inr v"
    and "invocations (snd (retryRequest rnd fn R D w)) = 1"
    and "world (snd (retryRequest rnd fn R D w)) = snd (fn w)"
  using assms by (cases "fn w"; simp add: retryRequest_def)+

lemma retryRequest_exhausted:
  assumes "\<forall>i\<le>R. isl (nth_result fn i w)"
  shows "isl (fst (retryRequest rnd fn R D w))"
    and "invocations (snd (retryRequest rnd fn R D w)) = R + 1"
proof -
  let ?s = "\<lparr>lastError = None, delay = D, invocations = 0, slept = [], draws = 0, world = w\<rparr>"
  from assms have "\<forall>i<R + 1. isl (nth_result fn i (world ?s))" by simp
  from retry_loop_exhaust [OF this, of rnd R 0]
  show "isl (fst (retryRequest rnd fn R D w))"
    and "invocations (snd (retryRequest rnd fn R D w)) = R + 1"
    by (simp_all add: retryRequest_def del: retry_loop.simps)
qed

text \<open>
  Claim C6, as the code has it. The handler validates the user id and nothing else. A
  request without a user id is answered 400 before anything else happens: the AI service
  is not called and the database is as it was. A request with a user id is never answered
  400 and always reaches the AI service, whatever its query, absent and empty included.
\<close>

theorem post_query_validates_user_only:
  "(userId body = None \<longrightarrow>
      post_query en ai body db w =
        \<lparr>answered = Failure 400 ''User ID is required'', stored = db, upstream = w,
         upstream_calls = 0\<rparr>) \<and>
   (userId body = Some u \<longrightarrow>
      1 \<le> upstream_calls (post_query en ai body db w) \<and>
      answered (post_query en ai body db w) \<noteq> Failure 400 msg)"
proof (intro conjI impI)
  assume "userId body = None"
  then show "post_query en ai body db w =
      \<lparr>answered = Failure 400 ''User ID is required'', stored = db, upstream = w, upstream_calls = 0\<rparr>"
    by (simp add: post_query_def)
next
  assume u: "userId body = Some u"
  let ?r = "retryRequest (math_random en) (ai (payload en body u db)) 5 5000 w"
  have "upstream_calls (post_query en ai body db w) = invocations (snd ?r)"
    using u by (simp add: post_query_def Let_def split: sum.splits prod.splits)
  then show "1 \<le> upstream_calls (post_query en ai body db w)"
    using retryRequest_invokes [of "math_random en" "ai (payload en body u db)" 5 5000 w] by simp
  have "store_exchange en body u response db \<noteq> (Failure 400 msg, d)" for response d
    by (simp add: store_exchange_def Let_def split: option.splits sum.splits)
  then show "answered (post_query en ai body db w) \<noteq> Failure 400 msg"
    using u by (auto simp: post_query_def Let_def split: sum.splits prod.splits)
qed

text \<open>
  Claim C7. When the six requests to the AI service that \<open>retryRequest\<close> makes for a
  query all fail, the handler answers 500 and the database is as it was: no session row,
  no history row and no memory row has been written.
\<close>

theorem post_query_upstream_failure:
  "userId body = Some u \<and> (\<forall>i\<le>5. isl (nth_result (ai (payload en body u db)) i w)) \<longrightarrow>
     answered (post_query en ai body db w) = Failure 500 ''Failed to process query'' \<and>
     stored (post_query en ai body db w) = db \<and>
     upstream_calls (post_query en ai body db w) = 6"
proof
  assume h: "userId body = Some u \<and> (\<forall>i\<le>5. isl (nth_result (ai (payload en body u db)) i w))"
  let ?r = "retryRequest (math_random en) (ai (payload en body u db)) 5 5000 w"
  from h retryRequest_exhausted [of 5 "ai (payload en body u db)" w "math_random en" 5000]
  have "isl (fst ?r)" and "invocations (snd ?r) = 6" by simp_all
  with h show "answered (post_query en ai body db w) = Failure 500 ''Failed to process query'' \<and>
     stored (post_query en ai body db w) = db \<and>
     upstream_calls (post_query en ai body db w) = 6"
    by (auto simp: post_query_def Let_def isl_def)
qed

theorem post_query_validates_user_only_witness:
  "post_query sample_env ai_answers
       \<lparr>query = Some ''What is ISO 9001?'', org_query = None, chat_id = None, userId = None\<rparr>
       sample_db 0 =
     \<lparr>answered = Failure 400 ''User ID is required'', stored = sample_db, upstream = 0,
      upstream_calls = 0\<rparr> \<and>
   1 \<le> upstream_calls (post_query sample_env ai_answers
       \<lparr>query = None, org_query = None, chat_id = None, userId = Some 2\<rparr> sample_db 0)"
  using post_query_validates_user_only [where en = sample_env and ai = ai_answers and db = sample_db
      and w = 0
      and body = "\<lparr>query = Some ''What is ISO 9001?'', org_query = None, chat_id = None, userId = None\<rparr>"]
    post_query_validates_user_only [where en = sample_env and ai = ai_answers and db = sample_db
      and w = 0 and u = 2
      and body = "\<lparr>query = None, org_query = None, chat_id = None, userId = Some 2\<rparr>"]
  by simp

text \<open>
  The claim as the specification states it fails for a query that is the empty string:
  the AI service is called, the answer is a 200, and a history row is stored.
\<close>

theorem post_query_empty_query_counterexample:
  "answered (post_query sample_env ai_answers
        \<lparr>query = Some [], org_query = None, chat_id = None, userId = Some 2\<rparr> sample_db 0) =
     Success
       [(''answer'', JStr ''It depends.''),
        (''related_queries'',
           JArr [JObj [(''query'', JStr ''What is ISO 9001?''), (''context'', JStr ''Generated suggestion'')],
                 JObj [(''query'', JStr ''Who audits?''), (''context'', JStr ''From the document'')],
                 JObj [(''query'', JStr ''What are the risks associated with ?''),
                       (''context'', JStr ''Generated suggestion'')],
                 JObj [(''query'', JStr ''How to measure success in ?''),
                       (''context'', JStr ''Generated suggestion'')],
                 JObj [(''query'', JStr ''What are the latest developments in ?''),
                       (''context'', JStr ''Generated suggestion'')]]),
        (''pdf_references'', JArr []),
        (''chatId'', JStr ''0b0e7a52-uuid'')] \<and>
   upstream_calls (post_query sample_env ai_answers
        \<lparr>query = Some [], org_query = None, chat_id = None, userId = Some 2\<rparr> sample_db 0) = 1 \<and>
   length (chat_history sample_db) = 1 \<and>
   length (chat_history (stored (post_query sample_env ai_answers
        \<lparr>query = Some [], org_query = None, chat_id = None, userId = Some 2\<rparr> sample_db 0))) = 2"
  by code_simp

theorem post_query_upstream_failure_witness:
  "answered (post_query sample_env ai_down
       \<lparr>query = Some ''What is ISO 9001?'', org_query = None, chat_id = Some ''c1'', userId = Some 1\<rparr>
       sample_db 0) = Failure 500 ''Failed to process query'' \<and>
   stored (post_query sample_env ai_down
       \<lparr>query = Some ''What is ISO 9001?'', org_query = None, chat_id = Some ''c1'', userId = Some 1\<rparr>
       sample_db 0) = sample_db \<and>
   upstream_calls (post_query sample_env ai_down
       \<lparr>query = Some ''What is ISO 9001?'', org_query = None, chat_id = Some ''c1'', userId = Some 1\<rparr>
       sample_db 0) = 6"
proof -
  have "\<forall>i\<le>5. isl (nth_result (ai_down p) i (0::nat))" for p
    by (simp add: nth_result_def ai_down_def)
  with post_query_upstream_failure [where en = sample_env and ai = ai_down and db = sample_db
      and w = 0 and u = 1
      and body = "\<lparr>query = Some ''What is ISO 9001?'', org_query = None, chat_id = Some ''c1'',
        userId = Some 1\<rparr>"]
  show ?thesis by simp
qed

section \<open>Properties of the normalisation and of the stored exchange\<close>

lemma get_set_field:
  "get_field k (set_field k' v kvs) = (if k = k' then Some v else get_field k kvs)"
  by (simp add: get_field_def set_field_def update_conv')

lemma elements_coerce_related:
  "get_field ''related_queries'' (coerce_related data) =
     Some (JArr (elements (get_field ''related_queries'' data)))"
proof (cases "get_field ''related_queries'' data")
  case None
  then show ?thesis by (simp add: coerce_related_def get_set_field truthy_opt_def)
next
  case (Some v)
  then show ?thesis
    by (cases v) (simp_all add: coerce_related_def get_set_field truthy_opt_def)
qed

lemma other_coerce_related:
  "k \<noteq> ''related_queries'' \<Longrightarrow> get_field k (coerce_related data) = get_field k data"
  by (simp add: coerce_related_def get_set_field)

lemma related_pad_related:
  "get_field ''related_queries'' data = Some (JArr related) \<Longrightarrow>
     get_field ''related_queries'' (pad_related en q data) = Some (JArr (related @ padding en q related))"
  by (simp add: pad_related_def padding_def get_set_field Let_def)

lemma other_pad_related:
  "k \<noteq> ''related_queries'' \<Longrightarrow> get_field k (pad_related en q data) = get_field k data"
  by (simp add: pad_related_def get_set_field Let_def)

lemma related_normalize_response:
  "get_field ''related_queries'' (normalize_response en q data) =
     Some (JArr (map normalize_item
       (elements (get_field ''related_queries'' data) @
        padding en q (elements (get_field ''related_queries'' data)))))"
  using related_pad_related [OF elements_coerce_related, where data1 = data and en = en and q = q]
  by (simp add: normalize_response_def default_pdf_references_def normalize_related_def
      get_set_field)

lemma other_normalize_response:
  "k \<noteq> ''related_queries'' \<Longrightarrow> k \<noteq> ''pdf_references'' \<Longrightarrow>
     get_field k (normalize_response en q data) = get_field k data"
  by (simp add: normalize_response_def default_pdf_references_def normalize_related_def
      get_set_field other_pad_related other_coerce_related)

lemma insert_session_Inr:
  assumes "insert_session c name u db = Inr db1"
  shows "chat_sessions db1 =
      (case chat_sessions db c of
         None \<Rightarrow> (chat_sessions db)(c \<mapsto> \<lparr>s_user_id = u, s_name = name, s_favorite = Some False\<rparr>)
       | Some r \<Rightarrow> chat_sessions db)"
    and "chat_sessions db1 c \<noteq> None"
    and "user_ids db1 = user_ids db" and "chat_history db1 = chat_history db"
    and "chat_memory db1 = chat_memory db" and "products db1 = products db"
  using assms by (auto simp: insert_session_def split: option.splits if_splits)


lemma insert_history_Inr:
  assumes "insert_history c q a refs images videos links related u db = Inr db2"
  shows "\<exists>qs av. q = Some qs \<and> a = Some av \<and> av \<noteq> JNull \<and> u \<in> user_ids db \<and>
      chat_history db2 = chat_history db @
        [\<lparr>h_chat_id = c, h_user_id = u, h_query = qs, h_answer = av, h_pdf_references = refs,
          h_online_images = images, h_online_videos = videos, h_online_links = links,
          h_relevant_queries = related\<rparr>]"
    and "chat_sessions db2 = chat_sessions db" and "user_ids db2 = user_ids db"
    and "chat_memory db2 = chat_memory db" and "products db2 = products db"
  using assms by (auto simp: insert_history_def split: option.splits if_splits)


lemma upsert_memory_Inr:
  assumes "upsert_memory c m db = Inr db3"
  shows "chat_memory db3 = (chat_memory db)(c \<mapsto> m)"
    and "chat_sessions db3 = chat_sessions db" and "user_ids db3 = user_ids db"
    and "chat_history db3 = chat_history db" and "products db3 = products db"
  using assms by (auto simp: upsert_memory_def split: option.splits if_splits)


lemma store_exchange_SuccessD:
  assumes run: "store_exchange en body u response db = (Success out, db3)"
  shows "\<exists>data0 q a.
      members response = Some data0 \<and> query body = Some q \<and>
      get_field ''answer'' data0 = Some a \<and> a \<noteq> JNull \<and> u \<in> user_ids db \<and>
      out = set_field ''chatId'' (JStr (finalChatId en body)) (normalize_response en (query body) data0) \<and>
      (chat_sessions db (finalChatId en body) \<noteq> None \<longrightarrow> chat_sessions db3 = chat_sessions db) \<and>
      (chat_sessions db (finalChatId en body) = None \<longrightarrow>
         (\<exists>name. chat_sessions db3 = (chat_sessions db)(finalChatId en body \<mapsto>
            \<lparr>s_user_id = u, s_name = name, s_favorite = Some False\<rparr>))) \<and>
      (\<exists>row. chat_history db3 = chat_history db @ [row] \<and> h_chat_id row = finalChatId en body \<and>
         h_user_id row = u \<and> h_query row = q \<and> h_answer row = a \<and>
         Some (h_relevant_queries row) =
           get_field ''related_queries'' (normalize_response en (query body) data0)) \<and>
      chat_memory db3 = (chat_memory db)(finalChatId en body \<mapsto>
         slice_last 20 (chatMemory body db @
           [message ''user'' (Some (JStr q)), message ''assistant'' (Some a)])) \<and>
      user_ids db3 = user_ids db \<and> products db3 = products db"
proof -
  from run obtain data0 where m: "members response = Some data0"
    by (auto simp: store_exchange_def split: option.splits)
  define data where "data = normalize_response en (query body) data0"
  define name where "name = (if truthy_opt (get_field ''chat_name'' data)
      then the (get_field ''chat_name'' data) else JStr (''Chat '' @ toISOString en))"
  define fid where "fid = finalChatId en body"
  define mem where "mem = slice_last 20 (chatMemory body db @
      [message ''user'' (map_option JStr (query body)), message ''assistant'' (get_field ''answer'' data)])"
  have unfolded: "store_exchange en body u response db =
      (case insert_session fid name u db of
         Inl e1 \<Rightarrow> (Failure 500 ''Failed to process query'', db)
       | Inr db1 \<Rightarrow>
           (case insert_history fid (query body) (get_field ''answer'' data)
                   (or_empty (get_field ''pdf_references'' data))
                   (or_empty (get_field ''online_images'' data))
                   (or_empty (get_field ''online_videos'' data))
                   (or_empty (get_field ''online_links'' data))
                   (or_empty (get_field ''related_queries'' data)) u db1 of
              Inl e2 \<Rightarrow> (Failure 500 ''Failed to process query'', db1)
            | Inr db2 \<Rightarrow>
                (case upsert_memory fid mem db2 of
                   Inl e3 \<Rightarrow> (Failure 500 ''Failed to process query'', db2)
                 | Inr db3 \<Rightarrow> (Success (set_field ''chatId'' (JStr fid) data), db3))))"
    unfolding store_exchange_def Let_def data_def name_def fid_def mem_def m option.case
    by (rule refl)
  from run obtain db1 where s1: "insert_session fid name u db = Inr db1"
    unfolding unfolded by (cases "insert_session fid name u db") auto
  from run s1 obtain db2 where s2: "insert_history fid (query body) (get_field ''answer'' data)
                   (or_empty (get_field ''pdf_references'' data))
                   (or_empty (get_field ''online_images'' data))
                   (or_empty (get_field ''online_videos'' data))
                   (or_empty (get_field ''online_links'' data))
                   (or_empty (get_field ''related_queries'' data)) u db1 = Inr db2"
    unfolding unfolded by (auto split: sum.splits)
  from run s1 s2 have s3: "upsert_memory fid mem db2 = Inr db3"
    and out: "out = set_field ''chatId'' (JStr fid) data"
    unfolding unfolded by (auto split: sum.splits)
  note i1 = insert_session_Inr [OF s1]
  note i3 = upsert_memory_Inr [OF s3]
  from insert_history_Inr(1) [OF s2] obtain q a where
    q: "query body = Some q" and a: "get_field ''answer'' data = Some a" "a \<noteq> JNull"
    and u: "u \<in> user_ids db1"
    and hist: "chat_history db2 = chat_history db1 @
        [\<lparr>h_chat_id = fid, h_user_id = u, h_query = q, h_answer = a,
          h_pdf_references = or_empty (get_field ''pdf_references'' data),
          h_online_images = or_empty (get_field ''online_images'' data),
          h_online_videos = or_empty (get_field ''online_videos'' data),
          h_online_links = or_empty (get_field ''online_links'' data),
          h_relevant_queries = or_empty (get_field ''related_queries'' data)\<rparr>]"
    by blast
  note i2 = insert_history_Inr(2-) [OF s2]
  have a0: "get_field ''answer'' data0 = Some a"
    using a(1) by (simp add: data_def other_normalize_response)
  have rel: "Some (or_empty (get_field ''related_queries'' data)) = get_field ''related_queries'' data"
    by (simp add: data_def related_normalize_response or_empty_def truthy_opt_def)
  have sess: "chat_sessions db3 = chat_sessions db1" using i3 i2 by simp
  have "chat_memory db3 = (chat_memory db)(fid \<mapsto> mem)" using i3 i2 i1 by simp
  then have memory: "chat_memory db3 = (chat_memory db)(fid \<mapsto>
      slice_last 20 (chatMemory body db @ [message ''user'' (Some (JStr q)), message ''assistant'' (Some a)]))"
    by (simp add: mem_def q a)
  have history: "\<exists>row. chat_history db3 = chat_history db @ [row] \<and> h_chat_id row = fid \<and>
         h_user_id row = u \<and> h_query row = q \<and> h_answer row = a \<and>
         Some (h_relevant_queries row) = get_field ''related_queries'' data"
    using hist i3 i1 rel by simp
  have old: "chat_sessions db fid \<noteq> None \<longrightarrow> chat_sessions db3 = chat_sessions db"
    using sess i1(1) by auto
  have new: "chat_sessions db fid = None \<longrightarrow>
      (\<exists>name. chat_sessions db3 = (chat_sessions db)(fid \<mapsto>
            \<lparr>s_user_id = u, s_name = name, s_favorite = Some False\<rparr>))"
    using sess i1(1) by auto
  have rest: "user_ids db3 = user_ids db" "products db3 = products db"
    using i1 i2 i3 by simp_all
  have u0: "u \<in> user_ids db" using u i1(3) by simp
  note facts = m q a0 a(2) u0 out old new history memory rest
  show ?thesis
    using facts [unfolded fid_def data_def]
    by - (intro exI [of _ data0] exI [of _ q] exI [of _ a] conjI; assumption)
qed


lemma slice_last_slice_last: "slice_last n (slice_last n xs @ ys) = slice_last n (xs @ ys)"
proof (cases "n \<le> length xs")
  case True
  then have "length xs + length ys - (length xs - n + n) + (length xs - n) = length xs + length ys - n"
    by arith
  with True show ?thesis by (simp add: slice_last_def)
next
  case False
  then show ?thesis by (simp add: slice_last_def)
qed

lemma length_slice_last: "length (slice_last n xs) = min n (length xs)"
  by (simp add: slice_last_def)

lemma slice_last_append_long: "n \<le> length ys \<Longrightarrow> slice_last n (xs @ ys) = slice_last n ys"
  by (simp add: slice_last_def)

lemma drop_concat_uniform:
  "(\<forall>xs\<in>set xss. length xs = k) \<Longrightarrow> drop (k * n) (concat xss) = concat (drop n xss)"
proof (induction xss arbitrary: n)
  case Nil
  show ?case by simp
next
  case (Cons xs xss)
  show ?case
  proof (cases n)
    case 0
    then show ?thesis by simp
  next
    case (Suc m)
    with Cons show ?thesis by simp
  qed
qed

lemma post_query_SuccessD:
  assumes "answered (post_query en ai body db w) = Success out"
  shows "\<exists>u response. userId body = Some u \<and>
      fst (retryRequest (math_random en) (ai (payload en body u db)) 5 5000 w) = Inr response \<and>
      store_exchange en body u response db = (Success out, stored (post_query en ai body db w))"
proof (cases "userId body")
  case None
  with assms show ?thesis by (simp add: post_query_def)
next
  case (Some u)
  let ?r = "retryRequest (math_random en) (ai (payload en body u db)) 5 5000 w"
  show ?thesis
  proof (cases "fst ?r")
    case (Inl e)
    with assms Some show ?thesis by (simp add: post_query_def Let_def)
  next
    case (Inr response)
    with assms Some show ?thesis
      by (cases "store_exchange en body u response db") (simp add: post_query_def Let_def)
  qed
qed


lemma chatMemory_given:
  "c \<noteq> [] \<Longrightarrow> chat_id body = Some c \<Longrightarrow>
     chatMemory body db = (case chat_memory db c of None \<Rightarrow> [] | Some m \<Rightarrow> m)"
  by (simp add: chatMemory_def given_def select_memory_def split: option.splits)

lemma finalChatId_given: "c \<noteq> [] \<Longrightarrow> chat_id body = Some c \<Longrightarrow> finalChatId en body = c"
  by (simp add: finalChatId_def given_def)



section \<open>Properties of the chat memory\<close>

lemma post_query_memory:
  assumes ok: "answered (post_query en ai body db w) = Success out"
  shows "\<exists>q a. query body = Some q \<and> get_field ''answer'' out = Some a \<and>
      chat_memory (stored (post_query en ai body db w)) =
        (chat_memory db)(finalChatId en body \<mapsto>
           slice_last 20 (chatMemory body db @
             [JObj [(''role'', JStr ''user''), (''content'', JStr q)],
              JObj [(''role'', JStr ''assistant''), (''content'', a)]]))"
proof -
  from post_query_SuccessD [OF ok] obtain u response where
    st: "store_exchange en body u response db = (Success out, stored (post_query en ai body db w))"
    by blast
  from store_exchange_SuccessD [OF st] obtain data0 q a where
    q: "query body = Some q" and a: "get_field ''answer'' data0 = Some a"
    and out: "out = set_field ''chatId'' (JStr (finalChatId en body))
        (normalize_response en (query body) data0)"
    and mem: "chat_memory (stored (post_query en ai body db w)) =
        (chat_memory db)(finalChatId en body \<mapsto>
           slice_last 20 (chatMemory body db @
             [message ''user'' (Some (JStr q)), message ''assistant'' (Some a)]))"
    by blast
  have "get_field ''answer'' out = Some a"
    using a by (simp add: out get_set_field other_normalize_response)
  with q mem [unfolded message_def] show ?thesis by (intro exI [of _ q] exI [of _ a]) simp
qed

lemma post_query_memory_messages:
  assumes ok: "answered (post_query en ai body db w) = Success out"
  shows "chat_memory (stored (post_query en ai body db w)) (finalChatId en body) =
      Some (slice_last 20 (chatMemory body db @ exchange_messages body (Success out)))"
    and "\<exists>q a. query body = Some q \<and> get_field ''answer'' out = Some a"
  using post_query_memory [OF ok] by auto

lemma post_queries_Cons:
  "post_queries ai ((en, body) # rest) db w =
     (answered (post_query en ai body db w) #
        fst (post_queries ai rest (stored (post_query en ai body db w)) (upstream (post_query en ai body db w))),
      snd (post_queries ai rest (stored (post_query en ai body db w)) (upstream (post_query en ai body db w))))"
  by (simp add: Let_def split: prod.splits)

lemma length_post_queries: "length (fst (post_queries ai reqs db w)) = length reqs"
proof (induction reqs arbitrary: db w)
  case Nil
  show ?case by simp
next
  case (Cons req rest)
  obtain en body where "req = (en, body)" by (cases req)
  with Cons.IH show ?case by (simp add: post_queries_Cons del: post_queries.simps)
qed

lemma post_queries_completed:
  assumes "list_all succeeded (fst (post_queries ai reqs db w))"
  shows "list_all2 (\<lambda>req r. \<exists>q out a. query (snd req) = Some q \<and> r = Success out \<and>
      get_field ''answer'' out = Some a) reqs (fst (post_queries ai reqs db w))"
  using assms
proof (induction reqs arbitrary: db w)
  case Nil
  show ?case by simp
next
  case (Cons req rest)
  obtain en body where req: "req = (en, body)" by (cases req)
  let ?r = "post_query en ai body db w"
  from Cons.prems req have "succeeded (answered ?r)"
    and rest_ok: "list_all succeeded (fst (post_queries ai rest (stored ?r) (upstream ?r)))"
    by (simp_all add: post_queries_Cons del: post_queries.simps)
  then obtain out where out: "answered ?r = Success out" by (cases "answered ?r") auto
  from post_query_memory_messages(2) [OF out] out Cons.IH [OF rest_ok] req
  show ?case by (simp add: post_queries_Cons del: post_queries.simps)
qed

lemma post_queries_memory:
  assumes "c \<noteq> []" and "list_all (\<lambda>(en, body). chat_id body = Some c) reqs"
    and "list_all succeeded (fst (post_queries ai reqs db w))" and "reqs \<noteq> []"
  shows "chat_memory (fst (snd (post_queries ai reqs db w))) c =
      Some (slice_last 20 ((case chat_memory db c of None \<Rightarrow> [] | Some m \<Rightarrow> m) @
        concat (map2 exchange_messages (map snd reqs) (fst (post_queries ai reqs db w)))))"
  using assms(2-)
proof (induction reqs arbitrary: db w)
  case Nil
  then show ?case by simp
next
  case (Cons req rest)
  obtain en body where req: "req = (en, body)" by (cases req)
  let ?r = "post_query en ai body db w"
  let ?rest = "post_queries ai rest (stored ?r) (upstream ?r)"
  from Cons.prems(1) req have cid: "chat_id body = Some c"
    and rest_ids: "list_all (\<lambda>(en, body). chat_id body = Some c) rest" by simp_all
  from Cons.prems(2) req have "succeeded (answered ?r)" and rest_ok: "list_all succeeded (fst ?rest)"
    by (simp_all add: post_queries_Cons del: post_queries.simps)
  then obtain out where out: "answered ?r = Success out" by (cases "answered ?r") auto
  let ?loaded = "case chat_memory db c of None \<Rightarrow> [] | Some m \<Rightarrow> m"
  have step: "chat_memory (stored ?r) c =
      Some (slice_last 20 (?loaded @ exchange_messages body (Success out)))"
    using post_query_memory_messages(1) [OF out] finalChatId_given [OF assms(1) cid]
      chatMemory_given [OF assms(1) cid] by simp
  show ?case
  proof (cases "rest = []")
    case True
    with step out req show ?thesis by (simp add: Let_def)
  next
    case False
    from Cons.IH [OF rest_ids rest_ok False] step
    have "chat_memory (fst (snd ?rest)) c =
        Some (slice_last 20 (?loaded @ exchange_messages body (Success out) @
          concat (map2 exchange_messages (map snd rest) (fst ?rest))))"
      using slice_last_slice_last [of 20 "?loaded @ exchange_messages body (Success out)"]
      by simp
    with out req show ?thesis by (simp add: post_queries_Cons del: post_queries.simps)
  qed
qed

lemma length_concat_uniform: "(\<forall>xs\<in>set xss. length xs = k) \<Longrightarrow> length (concat xss) = k * length xss"
  by (induction xss) auto

lemma nth_concat_uniform:
  "(\<forall>xs\<in>set xss. length xs = k) \<Longrightarrow> i < length xss \<Longrightarrow> j < k \<Longrightarrow>
     concat xss ! (k * i + j) = xss ! i ! j"
proof (induction xss arbitrary: i)
  case Nil
  then show ?case by simp
next
  case (Cons xs xss)
  show ?case
  proof (cases i)
    case 0
    with Cons.prems show ?thesis by (simp add: nth_append)
  next
    case (Suc n)
    with Cons.prems have "concat xss ! (k * n + j) = xss ! n ! j"
      by (intro Cons.IH) simp_all
    moreover have "length xs = k" using Cons.prems(1) by simp
    ultimately show ?thesis using Suc by (simp add: nth_append)
  qed
qed

lemma length_exchange_messages:
  "list_all2 (\<lambda>req r. \<exists>q out a. query (snd req) = Some q \<and> r = Success out \<and>
      get_field ''answer'' out = Some a) reqs replies \<Longrightarrow>
     \<forall>xs\<in>set (map2 exchange_messages (map snd reqs) replies). length xs = 2"
  by (induction reqs replies rule: list_all2_induct) auto

lemma last_ten_exchanges:
  assumes two: "\<forall>xs\<in>set (map2 exchange_messages bodies replies). length xs = 2"
    and len: "length bodies = length replies" and n: "10 \<le> length replies"
  shows "slice_last 20 (loaded @ concat (map2 exchange_messages bodies replies)) =
      concat (map2 exchange_messages (drop (length replies - 10) bodies)
        (drop (length replies - 10) replies))"
    and "length (concat (map2 exchange_messages (drop (length replies - 10) bodies)
        (drop (length replies - 10) replies))) = 20"
    and "\<forall>xs\<in>set (map2 exchange_messages (drop (length replies - 10) bodies)
        (drop (length replies - 10) replies)). length xs = 2"
proof -
  let ?xss = "map2 exchange_messages bodies replies"
  have total: "length (concat ?xss) = 2 * length replies"
    using length_concat_uniform [of ?xss 2] two len by simp
  have dropped: "drop (length replies - 10) ?xss =
      map2 exchange_messages (drop (length replies - 10) bodies) (drop (length replies - 10) replies)"
    by (simp add: drop_map drop_zip)
  have "slice_last 20 (loaded @ concat ?xss) = slice_last 20 (concat ?xss)"
    using total n by (intro slice_last_append_long) simp
  also have "\<dots> = drop (2 * (length replies - 10)) (concat ?xss)"
    using total n by (simp add: slice_last_def diff_mult_distrib2)
  also have "\<dots> = concat (drop (length replies - 10) ?xss)"
    using two by (rule drop_concat_uniform)
  finally show "slice_last 20 (loaded @ concat ?xss) =
      concat (map2 exchange_messages (drop (length replies - 10) bodies)
        (drop (length replies - 10) replies))"
    by (simp only: dropped)
  have two': "\<forall>xs\<in>set (drop (length replies - 10) ?xss). length xs = 2"
    using two by (meson in_set_dropD)
  then show "\<forall>xs\<in>set (map2 exchange_messages (drop (length replies - 10) bodies)
        (drop (length replies - 10) replies)). length xs = 2"
    by (simp only: dropped)
  from two' have "length (concat (drop (length replies - 10) ?xss)) =
      2 * length (drop (length replies - 10) ?xss)"
    by (rule length_concat_uniform)
  also have "\<dots> = 20" using n len by simp
  finally show "length (concat (map2 exchange_messages (drop (length replies - 10) bodies)
        (drop (length replies - 10) replies))) = 20"
    by (simp only: dropped)
qed

text \<open>
  Claim C3. After a completed exchange the memory stored under the chat id of the exchange
  is the memory that was loaded, followed by the message \<open>{role: "user", content: query}\<close>
  and the message \<open>{role: "assistant", content: answer}\<close>, cut to its last 20 entries; the
  row is created or replaced, and the memory of every other chat id is as it was. After
  more than ten completed exchanges that carry the chat id \<open>c\<close>, the memory stored under
  \<open>c\<close> has exactly 20 entries, the messages of the last ten exchanges in their order: for
  \<open>i < 10\<close>, entry \<open>2 i\<close> is the user message with the query of the \<open>i\<close>-th of the last
  ten requests and entry \<open>2 i + 1\<close> the assistant message with the answer of its reply.
\<close>

theorem chat_memory_last_ten_exchanges:
  "(answered (post_query en ai body db w) = Success out \<longrightarrow>
      (\<exists>q a. query body = Some q \<and> get_field ''answer'' out = Some a \<and>
         chat_memory (stored (post_query en ai body db w)) =
           (chat_memory db)(finalChatId en body \<mapsto>
              slice_last 20 (chatMemory body db @
                [JObj [(''role'', JStr ''user''), (''content'', JStr q)],
                 JObj [(''role'', JStr ''assistant''), (''content'', a)]])) \<and>
         length (slice_last 20 (chatMemory body db @
                [JObj [(''role'', JStr ''user''), (''content'', JStr q)],
                 JObj [(''role'', JStr ''assistant''), (''content'', a)]])) \<le> 20)) \<and>
   (c \<noteq> [] \<and> list_all (\<lambda>(en, body). chat_id body = Some c) reqs \<and>
    list_all succeeded (fst (post_queries ai reqs db w)) \<and> 10 < length reqs \<longrightarrow>
      (\<exists>m. chat_memory (fst (snd (post_queries ai reqs db w))) c = Some m \<and> length m = 20 \<and>
         m = concat (map2 exchange_messages (drop (length reqs - 10) (map snd reqs))
               (drop (length reqs - 10) (fst (post_queries ai reqs db w)))) \<and>
         (\<forall>i<10. \<exists>q out a.
            query (snd (reqs ! (length reqs - 10 + i))) = Some q \<and>
            fst (post_queries ai reqs db w) ! (length reqs - 10 + i) = Success out \<and>
            get_field ''answer'' out = Some a \<and>
            m ! (2 * i) = JObj [(''role'', JStr ''user''), (''content'', JStr q)] \<and>
            m ! (2 * i + 1) = JObj [(''role'', JStr ''assistant''), (''content'', a)])))"
proof (intro conjI impI)
  assume "answered (post_query en ai body db w) = Success out"
  from post_query_memory [OF this]
  show "\<exists>q a. query body = Some q \<and> get_field ''answer'' out = Some a \<and>
         chat_memory (stored (post_query en ai body db w)) =
           (chat_memory db)(finalChatId en body \<mapsto>
              slice_last 20 (chatMemory body db @
                [JObj [(''role'', JStr ''user''), (''content'', JStr q)],
                 JObj [(''role'', JStr ''assistant''), (''content'', a)]])) \<and>
         length (slice_last 20 (chatMemory body db @
                [JObj [(''role'', JStr ''user''), (''content'', JStr q)],
                 JObj [(''role'', JStr ''assistant''), (''content'', a)]])) \<le> 20"
    by (auto simp: length_slice_last simp del: fun_upd_apply)
next
  assume h: "c \<noteq> [] \<and> list_all (\<lambda>(en, body). chat_id body = Some c) reqs \<and>
    list_all succeeded (fst (post_queries ai reqs db w)) \<and> 10 < length reqs"
  let ?replies = "fst (post_queries ai reqs db w)"
  let ?k = "length reqs - 10"
  let ?xss = "map2 exchange_messages (drop ?k (map snd reqs)) (drop ?k ?replies)"
  from h have ne: "reqs \<noteq> []" by auto
  have len: "length (map snd reqs) = length ?replies" by (simp add: length_post_queries)
  have n: "10 \<le> length ?replies" using h by (simp add: length_post_queries)
  have k: "length ?replies = length reqs" by (simp add: length_post_queries)
  from h have ok: "list_all succeeded ?replies" by simp
  note completed = post_queries_completed [OF ok]
  note last = last_ten_exchanges [OF length_exchange_messages [OF completed] len n, unfolded k]
  from h post_queries_memory [of c reqs ai db w] ne
  have "chat_memory (fst (snd (post_queries ai reqs db w))) c =
      Some (slice_last 20 ((case chat_memory db c of None \<Rightarrow> [] | Some m \<Rightarrow> m) @
        concat (map2 exchange_messages (map snd reqs) ?replies)))" by simp
  then have stored: "chat_memory (fst (snd (post_queries ai reqs db w))) c = Some (concat ?xss)"
    by (simp only: last(1))
  have lx: "length ?xss = 10" using h k by simp
  have each: "\<forall>i<10. \<exists>q out a.
      query (snd (reqs ! (?k + i))) = Some q \<and> ?replies ! (?k + i) = Success out \<and>
      get_field ''answer'' out = Some a \<and>
      concat ?xss ! (2 * i) = JObj [(''role'', JStr ''user''), (''content'', JStr q)] \<and>
      concat ?xss ! (2 * i + 1) = JObj [(''role'', JStr ''assistant''), (''content'', a)]"
  proof (intro allI impI)
    fix i :: nat assume i: "i < 10"
    with h have ki: "?k + i < length reqs" by arith
    from list_all2_nthD [OF completed ki] obtain q out a where
      q: "query (snd (reqs ! (?k + i))) = Some q" and r: "?replies ! (?k + i) = Success out"
      and a: "get_field ''answer'' out = Some a" by blast
    have "?xss ! i = exchange_messages (snd (reqs ! (?k + i))) (?replies ! (?k + i))"
      using i ki k h by simp
    then have xi: "?xss ! i = [JObj [(''role'', JStr ''user''), (''content'', JStr q)],
        JObj [(''role'', JStr ''assistant''), (''content'', a)]]"
      by (simp add: q r a)
    have "concat ?xss ! (2 * i + 0) = ?xss ! i ! 0" and "concat ?xss ! (2 * i + 1) = ?xss ! i ! 1"
      using i lx by (intro nth_concat_uniform [OF last(3)]; simp)+
    with xi q r a show "\<exists>q out a.
      query (snd (reqs ! (?k + i))) = Some q \<and> ?replies ! (?k + i) = Success out \<and>
      get_field ''answer'' out = Some a \<and>
      concat ?xss ! (2 * i) = JObj [(''role'', JStr ''user''), (''content'', JStr q)] \<and>
      concat ?xss ! (2 * i + 1) = JObj [(''role'', JStr ''assistant''), (''content'', a)]"
      by (intro exI [of _ q] exI [of _ out] exI [of _ a]) simp
  qed
  from stored last(2) each
  show "\<exists>m. chat_memory (fst (snd (post_queries ai reqs db w))) c = Some m \<and> length m = 20 \<and>
         m = concat (map2 exchange_messages (drop (length reqs - 10) (map snd reqs))
               (drop (length reqs - 10) (fst (post_queries ai reqs db w)))) \<and>
         (\<forall>i<10. \<exists>q out a.
            query (snd (reqs ! (length reqs - 10 + i))) = Some q \<and>
            fst (post_queries ai reqs db w) ! (length reqs - 10 + i) = Success out \<and>
            get_field ''answer'' out = Some a \<and>
            m ! (2 * i) = JObj [(''role'', JStr ''user''), (''content'', JStr q)] \<and>
            m ! (2 * i + 1) = JObj [(''role'', JStr ''assistant''), (''content'', a)])"
    by (intro exI [of _ "concat ?xss"] conjI) simp_all
qed

lemma sample_requests_succeed:
  "list_all succeeded (fst (post_queries ai_answers sample_requests sample_db 0))"
  by code_simp

lemma sample_requests_chat: "list_all (\<lambda>(en, body). chat_id body = Some ''c1'') sample_requests"
  by (simp add: sample_requests_def)

lemma sample_first_request_succeeds:
  "succeeded (answered (post_query sample_env ai_answers
      \<lparr>query = Some ''q01'', org_query = None, chat_id = Some ''c1'', userId = Some 1\<rparr> sample_db 0))"
  by code_simp

theorem chat_memory_last_ten_exchanges_witness:
  "(\<exists>a. chat_memory (stored (post_query sample_env ai_answers
        \<lparr>query = Some ''q01'', org_query = None, chat_id = Some ''c1'', userId = Some 1\<rparr> sample_db 0))
        ''c1'' =
      Some [JObj [(''role'', JStr ''user''), (''content'', JStr ''q0'')],
            JObj [(''role'', JStr ''assistant''), (''content'', JStr ''a0'')],
            JObj [(''role'', JStr ''user''), (''content'', JStr ''q01'')],
            JObj [(''role'', JStr ''assistant''), (''content'', a)]]) \<and>
   length sample_requests = 11 \<and>
   (\<exists>m a. chat_memory (fst (snd (post_queries ai_answers sample_requests sample_db 0))) ''c1'' = Some m \<and>
      length m = 20 \<and>
      m ! 0 = JObj [(''role'', JStr ''user''), (''content'', JStr ''q02'')] \<and>
      m ! 18 = JObj [(''role'', JStr ''user''), (''content'', JStr ''q11'')] \<and>
      m ! 19 = JObj [(''role'', JStr ''assistant''), (''content'', a)])"
proof -
  let ?body = "\<lparr>query = Some ''q01'', org_query = None, chat_id = Some ''c1'', userId = Some 1\<rparr>"
  let ?res = "post_query sample_env ai_answers ?body sample_db 0"
  from sample_first_request_succeeds obtain out where out: "answered ?res = Success out"
    by (cases "answered ?res") auto
  have fid: "finalChatId sample_env ?body = ''c1''"
    by (simp add: finalChatId_def given_def)
  have loaded: "chatMemory ?body sample_db =
      [JObj [(''role'', JStr ''user''), (''content'', JStr ''q0'')],
       JObj [(''role'', JStr ''assistant''), (''content'', JStr ''a0'')]]"
    by (simp add: chatMemory_def given_def select_memory_def sample_db_def message_def)
  from chat_memory_last_ten_exchanges [where en = sample_env and ai = ai_answers and body = ?body
      and db = sample_db and w = 0 and out = out, THEN conjunct1, THEN mp, OF out]
  obtain q a where q: "query ?body = Some q"
    and mem: "chat_memory (stored ?res) = (chat_memory sample_db)(finalChatId sample_env ?body \<mapsto>
        slice_last 20 (chatMemory ?body sample_db @
          [JObj [(''role'', JStr ''user''), (''content'', JStr q)],
           JObj [(''role'', JStr ''assistant''), (''content'', a)]]))"
    by blast
  from q have q1: "q = ''q01''" by simp
  have "chat_memory (stored ?res) ''c1'' =
      Some (slice_last 20 (chatMemory ?body sample_db @
          [JObj [(''role'', JStr ''user''), (''content'', JStr q)],
           JObj [(''role'', JStr ''assistant''), (''content'', a)]]))"
    unfolding mem fid by simp
  then have "chat_memory (stored ?res) ''c1'' =
      Some [JObj [(''role'', JStr ''user''), (''content'', JStr ''q0'')],
            JObj [(''role'', JStr ''assistant''), (''content'', JStr ''a0'')],
            JObj [(''role'', JStr ''user''), (''content'', JStr ''q01'')],
            JObj [(''role'', JStr ''assistant''), (''content'', a)]]"
    unfolding loaded q1 by (simp add: slice_last_def)
  then have single: "\<exists>a. chat_memory (stored ?res) ''c1'' =
      Some [JObj [(''role'', JStr ''user''), (''content'', JStr ''q0'')],
            JObj [(''role'', JStr ''assistant''), (''content'', JStr ''a0'')],
            JObj [(''role'', JStr ''user''), (''content'', JStr ''q01'')],
            JObj [(''role'', JStr ''assistant''), (''content'', a)]]"
    by (rule exI)
  have n: "length sample_requests = 11" by (simp add: sample_requests_def)
  have h: "''c1'' \<noteq> [] \<and> list_all (\<lambda>(en, body). chat_id body = Some ''c1'') sample_requests \<and>
      list_all succeeded (fst (post_queries ai_answers sample_requests sample_db 0)) \<and>
      10 < length sample_requests"
    using sample_requests_succeed sample_requests_chat n by simp
  from chat_memory_last_ten_exchanges [where c = "''c1''" and reqs = sample_requests
      and ai = ai_answers and db = sample_db and w = 0, THEN conjunct2, THEN mp, OF h]
  obtain m where m: "chat_memory (fst (snd (post_queries ai_answers sample_requests sample_db 0))) ''c1'' =
      Some m" and lm: "length m = 20"
    and each: "\<forall>i<10. \<exists>q out a.
        query (snd (sample_requests ! (length sample_requests - 10 + i))) = Some q \<and>
        fst (post_queries ai_answers sample_requests sample_db 0) !
          (length sample_requests - 10 + i) = Success out \<and>
        get_field ''answer'' out = Some a \<and>
        m ! (2 * i) = JObj [(''role'', JStr ''user''), (''content'', JStr q)] \<and>
        m ! (2 * i + 1) = JObj [(''role'', JStr ''assistant''), (''content'', a)]"
    by blast
  from each have "\<exists>q. query (snd (sample_requests ! (length sample_requests - 10 + 0))) = Some q \<and>
      m ! (2 * 0) = JObj [(''role'', JStr ''user''), (''content'', JStr q)]"
    by (meson zero_less_numeral)
  then have m0: "m ! 0 = JObj [(''role'', JStr ''user''), (''content'', JStr ''q02'')]"
    by (auto simp: n sample_requests_def)
  have "(9::nat) < 10" by simp
  with each have "\<exists>q a. query (snd (sample_requests ! (length sample_requests - 10 + 9))) = Some q \<and>
      m ! (2 * 9) = JObj [(''role'', JStr ''user''), (''content'', JStr q)] \<and>
      m ! (2 * 9 + 1) = JObj [(''role'', JStr ''assistant''), (''content'', a)]"
    by meson
  then obtain a where m18: "m ! 18 = JObj [(''role'', JStr ''user''), (''content'', JStr ''q11'')]"
    and m19: "m ! 19 = JObj [(''role'', JStr ''assistant''), (''content'', a)]"
    by (auto simp: n sample_requests_def)
  from m lm m0 m18 m19 have "\<exists>m a.
      chat_memory (fst (snd (post_queries ai_answers sample_requests sample_db 0))) ''c1'' = Some m \<and>
      length m = 20 \<and>
      m ! 0 = JObj [(''role'', JStr ''user''), (''content'', JStr ''q02'')] \<and>
      m ! 18 = JObj [(''role'', JStr ''user''), (''content'', JStr ''q11'')] \<and>
      m ! 19 = JObj [(''role'', JStr ''assistant''), (''content'', a)]"
    by - (intro exI [of _ m] exI [of _ a] conjI; assumption)
  with single n show ?thesis by (intro conjI)
qed

section \<open>Properties of the related queries\<close>

lemma length_padding:
  assumes "\<forall>xs. mset (sort_random en xs) = mset xs" and "length related < 5"
  shows "length (padding en q related) = 5 - length related"
proof -
  have "length (sort_random en (defaultQueries q)) = length (defaultQueries q)"
    using assms(1) by (metis mset_eq_length)
  then have "length (sort_random en (defaultQueries q)) = 8"
    by (simp add: defaultQueries_def)
  with assms(2) show ?thesis
    by (simp add: padding_def generateAdditionalQueries_def)
qed

lemma set_padding:
  assumes "\<forall>xs. mset (sort_random en xs) = mset xs" and "g \<in> set (padding en q related)"
  shows "\<exists>t\<in>set (defaultQueries q). g = suggestion t"
proof -
  have "set (sort_random en (defaultQueries q)) = set (defaultQueries q)"
    using assms(1) by (metis mset_eq_setD)
  moreover from assms(2) obtain t where "t \<in> set (take (5 - length related) (sort_random en (defaultQueries q)))"
    and "g = suggestion t"
    by (auto simp: padding_def generateAdditionalQueries_def split: if_splits)
  ultimately have "t \<in> set (defaultQueries q)" by (metis in_set_takeD)
  with \<open>g = suggestion t\<close> show ?thesis by blast
qed

lemma normalize_item_cases:
  "normalize_item (JStr s) = JObj [(''query'', JStr s), (''context'', JStr ''Generated suggestion'')]"
  "\<not> isString x \<Longrightarrow> normalize_item x = x"
  by (simp_all add: normalize_item_def)

lemma is_suggestion_normalize_item:
  "isString x \<or> is_suggestion x \<Longrightarrow> is_suggestion (normalize_item x)"
  by (cases x) (auto simp: normalize_item_def get_field_def)

lemma normalize_item_suggestion: "normalize_item (suggestion t) = suggestion t"
  by (simp add: normalize_item_def suggestion_def)

lemma is_suggestion_suggestion: "is_suggestion (suggestion t)"
  by (simp add: suggestion_def get_field_def)

text \<open>
  Claim C2, as the code has it. In a completed query the related queries of the answer
  are a list \<open>final\<close> made from the list \<open>related\<close> of the upstream payload, which is
  empty when the member is absent or not an array. A list of fewer than five entries is
  padded to exactly five; a longer one keeps its length. The entries of \<open>related\<close> come
  first, in their order: a string \<open>s\<close> as \<open>{query: s, context: "Generated suggestion"}\<close>
  and every entry that is not a string unchanged. Every entry after them is a template of
  \<open>generateAdditionalQueries\<close> for the query with the context \<open>Generated suggestion\<close>.
  So all entries of \<open>final\<close> have the shape \<open>{query, context}\<close> when all entries of
  \<open>related\<close> that are not strings have it. The sort with a random comparator is taken to
  permute its argument.
\<close>

theorem related_queries_padded:
  "userId body = Some u \<and>
   fst (retryRequest (math_random en) (ai (payload en body u db)) 5 5000 w) = Inr response \<and>
   answered (post_query en ai body db w) = Success out \<and>
   (\<forall>xs. mset (sort_random en xs) = mset xs) \<longrightarrow>
     (\<exists>data0 related final.
        members response = Some data0 \<and>
        related = elements (get_field ''related_queries'' data0) \<and>
        get_field ''related_queries'' out = Some (JArr final) \<and>
        (length related < 5 \<longrightarrow> length final = 5) \<and>
        (5 \<le> length related \<longrightarrow> length final = length related) \<and>
        (\<forall>i<length related.
           (\<forall>s. related ! i = JStr s \<longrightarrow>
              final ! i = JObj [(''query'', JStr s), (''context'', JStr ''Generated suggestion'')]) \<and>
           (\<not> isString (related ! i) \<longrightarrow> final ! i = related ! i)) \<and>
        (\<forall>i. length related \<le> i \<and> i < length final \<longrightarrow>
           (\<exists>t\<in>set (defaultQueries (query body)).
              final ! i = JObj [(''query'', JStr t), (''context'', JStr ''Generated suggestion'')])) \<and>
        ((\<forall>x\<in>set related. isString x \<or> is_suggestion x) \<longrightarrow> (\<forall>y\<in>set final. is_suggestion y)))"
proof
  assume h: "userId body = Some u \<and>
   fst (retryRequest (math_random en) (ai (payload en body u db)) 5 5000 w) = Inr response \<and>
   answered (post_query en ai body db w) = Success out \<and>
   (\<forall>xs. mset (sort_random en xs) = mset xs)"
  then have perm: "\<forall>xs. mset (sort_random en xs) = mset xs" by simp
  from h post_query_SuccessD [of en ai body db w out]
  have st: "store_exchange en body u response db = (Success out, stored (post_query en ai body db w))"
    by auto
  from store_exchange_SuccessD [OF st] obtain data0 where
    m: "members response = Some data0"
    and out: "out = set_field ''chatId'' (JStr (finalChatId en body))
        (normalize_response en (query body) data0)"
    by blast
  define related where "related = elements (get_field ''related_queries'' data0)"
  define pad where "pad = padding en (query body) related"
  define final where "final = map normalize_item (related @ pad)"
  have rq: "get_field ''related_queries'' out = Some (JArr final)"
    by (simp add: out get_set_field related_normalize_response final_def pad_def related_def)
  have short: "length related < 5 \<longrightarrow> length final = 5"
    using length_padding [OF perm, of related "query body"] by (simp add: final_def pad_def)
  have long: "5 \<le> length related \<longrightarrow> length final = length related"
    by (simp add: final_def pad_def padding_def)
  have front: "\<forall>i<length related.
      (\<forall>s. related ! i = JStr s \<longrightarrow>
         final ! i = JObj [(''query'', JStr s), (''context'', JStr ''Generated suggestion'')]) \<and>
      (\<not> isString (related ! i) \<longrightarrow> final ! i = related ! i)"
    by (simp add: final_def nth_append normalize_item_cases)
  have rear: "\<forall>i. length related \<le> i \<and> i < length final \<longrightarrow>
      (\<exists>t\<in>set (defaultQueries (query body)).
         final ! i = JObj [(''query'', JStr t), (''context'', JStr ''Generated suggestion'')])"
  proof (intro allI impI)
    fix i assume i: "length related \<le> i \<and> i < length final"
    then have "i < length related + length pad" by (simp add: final_def)
    with i have j: "i - length related < length pad" by arith
    then have "pad ! (i - length related) \<in> set (padding en (query body) related)"
      by (simp add: pad_def)
    from set_padding [OF perm this]
    obtain t where t: "t \<in> set (defaultQueries (query body))"
      and g: "pad ! (i - length related) = suggestion t" by (auto simp: pad_def)
    have "final ! i = normalize_item (pad ! (i - length related))"
      using i j by (simp add: final_def nth_append)
    then have "final ! i = JObj [(''query'', JStr t), (''context'', JStr ''Generated suggestion'')]"
      by (simp add: g normalize_item_suggestion) (simp add: suggestion_def)
    with t show "\<exists>t\<in>set (defaultQueries (query body)).
         final ! i = JObj [(''query'', JStr t), (''context'', JStr ''Generated suggestion'')]"
      by blast
  qed
  have shape: "(\<forall>x\<in>set related. isString x \<or> is_suggestion x) \<longrightarrow> (\<forall>y\<in>set final. is_suggestion y)"
  proof (intro impI ballI)
    fix y assume ok: "\<forall>x\<in>set related. isString x \<or> is_suggestion x" and "y \<in> set final"
    then obtain x where x: "x \<in> set related \<or> x \<in> set pad" and y: "y = normalize_item x"
      by (auto simp: final_def)
    from x show "is_suggestion y"
    proof
      assume "x \<in> set related"
      with ok show ?thesis by (simp add: y is_suggestion_normalize_item)
    next
      assume "x \<in> set pad"
      then have "x \<in> set (padding en (query body) related)" by (simp add: pad_def)
      from set_padding [OF perm this]
      show ?thesis by (auto simp: y normalize_item_suggestion is_suggestion_suggestion)
    qed
  qed
  from m related_def rq short long front rear shape
  show "\<exists>data0 related final.
        members response = Some data0 \<and>
        related = elements (get_field ''related_queries'' data0) \<and>
        get_field ''related_queries'' out = Some (JArr final) \<and>
        (length related < 5 \<longrightarrow> length final = 5) \<and>
        (5 \<le> length related \<longrightarrow> length final = length related) \<and>
        (\<forall>i<length related.
           (\<forall>s. related ! i = JStr s \<longrightarrow>
              final ! i = JObj [(''query'', JStr s), (''context'', JStr ''Generated suggestion'')]) \<and>
           (\<not> isString (related ! i) \<longrightarrow> final ! i = related ! i)) \<and>
        (\<forall>i. length related \<le> i \<and> i < length final \<longrightarrow>
           (\<exists>t\<in>set (defaultQueries (query body)).
              final ! i = JObj [(''query'', JStr t), (''context'', JStr ''Generated suggestion'')])) \<and>
        ((\<forall>x\<in>set related. isString x \<or> is_suggestion x) \<longrightarrow> (\<forall>y\<in>set final. is_suggestion y))"
    by - (intro exI [of _ data0] exI [of _ related] exI [of _ final] conjI; assumption)
qed

lemma sample_related_answered:
  "succeeded (answered (post_query sample_env ai_answers
      \<lparr>query = Some ''audits'', org_query = None, chat_id = None, userId = Some 2\<rparr> sample_db 0))"
  by code_simp

theorem related_queries_padded_witness:
  "\<exists>out final.
     answered (post_query sample_env ai_answers
       \<lparr>query = Some ''audits'', org_query = None, chat_id = None, userId = Some 2\<rparr> sample_db 0) =
       Success out \<and>
     get_field ''related_queries'' out = Some (JArr final) \<and> length final = 5 \<and>
     final ! 0 = JObj [(''query'', JStr ''What is ISO 9001?''), (''context'', JStr ''Generated suggestion'')] \<and>
     final ! 1 = JObj [(''query'', JStr ''Who audits?''), (''context'', JStr ''From the document'')] \<and>
     (\<forall>y\<in>set final. is_suggestion y)"
proof -
  let ?body = "\<lparr>query = Some ''audits'', org_query = None, chat_id = None, userId = Some 2\<rparr>"
  let ?related = "[JStr ''What is ISO 9001?'',
      JObj [(''query'', JStr ''Who audits?''), (''context'', JStr ''From the document'')]]"
  let ?data0 = "[(''answer'', JStr ''It depends.''), (''related_queries'', JArr ?related)]"
  from sample_related_answered obtain out where
    out: "answered (post_query sample_env ai_answers ?body sample_db 0) = Success out"
    by (cases "answered (post_query sample_env ai_answers ?body sample_db 0)") auto
  have first: "fst (retryRequest (math_random sample_env)
      (ai_answers (payload sample_env ?body 2 sample_db)) 5 5000 0) = Inr (JObj ?data0)"
    by (rule retryRequest_first_try) (simp add: ai_answers_def)
  have perm: "\<forall>xs. mset (sort_random sample_env xs) = mset xs"
    by (simp add: sample_env_def)
  from related_queries_padded [where body = ?body and u = 2 and en = sample_env and ai = ai_answers
      and db = sample_db and w = 0 and response = "JObj ?data0" and out = out] out first perm
  obtain data0 related final where
    m: "members (JObj ?data0) = Some data0"
    and rel: "related = elements (get_field ''related_queries'' data0)"
    and rq: "get_field ''related_queries'' out = Some (JArr final)"
    and short: "length related < 5 \<longrightarrow> length final = 5"
    and front: "\<forall>i<length related.
           (\<forall>s. related ! i = JStr s \<longrightarrow>
              final ! i = JObj [(''query'', JStr s), (''context'', JStr ''Generated suggestion'')]) \<and>
           (\<not> isString (related ! i) \<longrightarrow> final ! i = related ! i)"
    and shape: "(\<forall>x\<in>set related. isString x \<or> is_suggestion x) \<longrightarrow> (\<forall>y\<in>set final. is_suggestion y)"
    by auto
  from m rel have related: "related = ?related" by (auto simp: get_field_def)
  from short have five: "length final = 5" by (simp add: related)
  from front have f0: "final ! 0 =
      JObj [(''query'', JStr ''What is ISO 9001?''), (''context'', JStr ''Generated suggestion'')]"
    by (simp add: related)
  from front have "1 < length related \<longrightarrow> (\<not> isString (related ! 1) \<longrightarrow> final ! 1 = related ! 1)"
    by blast
  then have f1: "final ! 1 =
      JObj [(''query'', JStr ''Who audits?''), (''context'', JStr ''From the document'')]"
    by (simp add: related)
  from shape have all: "\<forall>y\<in>set final. is_suggestion y"
    by (simp add: related get_field_def)
  from out rq five f0 f1 all show ?thesis by blast
qed

text \<open>
  The claim as the specification states it fails for an upstream entry that is an object
  of another shape: the entry is in the answer as it came.
\<close>

theorem related_queries_shape_counterexample:
  "answered (post_query sample_env ai_other_shape
       \<lparr>query = Some ''audits'', org_query = None, chat_id = None, userId = Some 2\<rparr> sample_db 0) =
     Success
       [(''answer'', JStr ''It depends.''),
        (''related_queries'',
           JArr [JObj [(''text'', JStr ''What is ISO 9001?'')],
                 JObj [(''query'', JStr ''What are the risks associated with audits?''),
                       (''context'', JStr ''Generated suggestion'')],
                 JObj [(''query'', JStr ''How to measure success in audits?''),
                       (''context'', JStr ''Generated suggestion'')],
                 JObj [(''query'', JStr ''What are the latest developments in audits?''),
                       (''context'', JStr ''Generated suggestion'')],
                 JObj [(''query'', JStr ''How to implement audits effectively?''),
                       (''context'', JStr ''Generated suggestion'')]]),
        (''pdf_references'', JArr []),
        (''chatId'', JStr ''0b0e7a52-uuid'')] \<and>
   \<not> is_suggestion (JObj [(''text'', JStr ''What is ISO 9001?'')])"
  by code_simp

end
